theory Spec2Isabelle
  imports Complex_Main "HOL-Library.Word" "HOL-Library.Multiset"
begin

section \<open>Shape descriptors of a voxel mask (radiomics/shape.py)\<close>

text \<open>
  The class \<^verbatim>\<open>RadiomicsShape\<close> pads the mask of a region of interest by one voxel of
  background on every face, computes volume and surface area once, and derives the
  dimensionless descriptors from these two numbers. The mask array is indexed
  \<open>[z][y][x]\<close>; the spacing tuple is \<open>(x, y, z)\<close>.

  Numbers. Python integers are \<open>int\<close>; sizes and indices are \<open>nat\<close>. The mask array has
  the pixel type of the mask image: its elements are \<open>int\<close> when that type is a signed
  integer or a floating type, and \<open>w\<close>-bit words when it is an unsigned integer type.
  A finite floating-point value is a \<open>real\<close>: rounding, overflow to infinity and the sign
  of zero are not modelled. What is modelled of the floating-point layer is where a
  result stops being a number: NumPy's scalar division and power return infinity or NaN
  (with a warning), Python's own \<^verbatim>\<open>float\<close> operations raise.
\<close>

subsection \<open>Arrays\<close>

type_synonym 'a array3 = "'a list list list"

definition has_shape :: "'a array3 \<Rightarrow> nat \<Rightarrow> nat \<Rightarrow> nat \<Rightarrow> bool" where
  "has_shape m D H W \<longleftrightarrow>
     length m = D \<and> list_all (\<lambda>p. length p = H \<and> list_all (\<lambda>r. length r = W) p) m"

definition is_binary :: "'a::{zero,one} array3 \<Rightarrow> bool" where
  "is_binary m \<longleftrightarrow> list_all (list_all (list_all (\<lambda>v. v = 0 \<or> v = 1))) m"

text \<open>A mask without a true voxel.\<close>

definition all_zero :: "'a::zero array3 \<Rightarrow> bool" where
  "all_zero m \<longleftrightarrow> list_all (list_all (list_all (\<lambda>v. v = 0))) m"

text \<open>
  Element-wise \<^verbatim>\<open>a - b\<close> of three-dimensional arrays, \<^verbatim>\<open>numpy.abs\<close> and \<^verbatim>\<open>numpy.sum\<close> of
  signed integer arrays. The two operands of every subtraction below are slices of one
  array with the same shape, so the truncation of \<open>zip\<close> never drops an element.
\<close>

definition np_subtract :: "'a::minus array3 \<Rightarrow> 'a array3 \<Rightarrow> 'a array3" where
  "np_subtract a b = map2 (map2 (map2 (\<lambda>u v. u - v))) a b"

definition np_abs :: "int array3 \<Rightarrow> int array3" where
  "np_abs a = map (map (map abs)) a"

definition np_sum :: "int array3 \<Rightarrow> int" where
  "np_sum a = sum_list (map (\<lambda>p. sum_list (map sum_list p)) a)"

text \<open>The slices \<^verbatim>\<open>a[:,:,1:]\<close>, \<^verbatim>\<open>a[:,:,:-1]\<close>, \<^verbatim>\<open>a[:,1:,:]\<close>, \<^verbatim>\<open>a[:,:-1,:]\<close>,
  \<^verbatim>\<open>a[1:,:,:]\<close> and \<^verbatim>\<open>a[:-1,:,:]\<close>.\<close>

definition slice_x_from1 :: "'a array3 \<Rightarrow> 'a array3" where
  "slice_x_from1 a = map (map tl) a"

definition slice_x_to_last :: "'a array3 \<Rightarrow> 'a array3" where
  "slice_x_to_last a = map (map butlast) a"

definition slice_y_from1 :: "'a array3 \<Rightarrow> 'a array3" where
  "slice_y_from1 a = map tl a"

definition slice_y_to_last :: "'a array3 \<Rightarrow> 'a array3" where
  "slice_y_to_last a = map butlast a"

definition slice_z_from1 :: "'a array3 \<Rightarrow> 'a array3" where
  "slice_z_from1 a = tl a"

definition slice_z_to_last :: "'a array3 \<Rightarrow> 'a array3" where
  "slice_z_to_last a = butlast a"

subsection \<open>Padding\<close>

text \<open>
  \<^verbatim>\<open>sitk.ConstantPadImageFilter\<close> with lower and upper bound \<^verbatim>\<open>numpy.tile(1, 3)\<close> and the
  filter's default constant 0: one voxel of 0 before and after the data along each of the
  three axes. \<open>H\<close> and \<open>W\<close> are the y and x sizes of the image being padded.
\<close>

definition pad_row :: "'a::zero list \<Rightarrow> 'a list" where
  "pad_row r = 0 # r @ [0]"

definition pad_plane :: "nat \<Rightarrow> 'a::zero list list \<Rightarrow> 'a list list" where
  "pad_plane W p = replicate (W + 2) 0 # map pad_row p @ [replicate (W + 2) 0]"

definition ConstantPadImageFilter :: "nat \<Rightarrow> nat \<Rightarrow> 'a::zero array3 \<Rightarrow> 'a array3" where
  "ConstantPadImageFilter H W m =
     replicate (H + 2) (replicate (W + 2) 0) # map (pad_plane W) m
       @ [replicate (H + 2) (replicate (W + 2) 0)]"

subsection \<open>The mask array and its element type\<close>

text \<open>
  \<^verbatim>\<open>sitk.GetArrayFromImage\<close> returns an array with the pixel type of the image, and the
  padding filter keeps that type. For a mask with a signed integer pixel type
  (\<^verbatim>\<open>sitkInt8\<close> to \<^verbatim>\<open>sitkInt64\<close>) or a floating one the values 0 and 1 and their
  differences are represented exactly, and the elements are modelled as \<open>int\<close>. For the
  unsigned pixel types \<^verbatim>\<open>sitkUInt8\<close>, \<^verbatim>\<open>sitkUInt16\<close>, \<^verbatim>\<open>sitkUInt32\<close> and \<^verbatim>\<open>sitkUInt64\<close>
  the elements are words of that width, whose subtraction wraps around.
\<close>

datatype mask_array =
    Signed_or_float "int array3"
  | UInt8 "8 word array3"
  | UInt16 "16 word array3"
  | UInt32 "32 word array3"
  | UInt64 "64 word array3"

text \<open>\<^verbatim>\<open>cpif.Execute(self.inputMask)\<close> followed by \<^verbatim>\<open>sitk.GetArrayFromImage\<close>.\<close>

definition cpif_Execute :: "nat \<Rightarrow> nat \<Rightarrow> mask_array \<Rightarrow> mask_array" where
  "cpif_Execute H W inputMask =
     (case inputMask of
        Signed_or_float a \<Rightarrow> Signed_or_float (ConstantPadImageFilter H W a)
      | UInt8 a \<Rightarrow> UInt8 (ConstantPadImageFilter H W a)
      | UInt16 a \<Rightarrow> UInt16 (ConstantPadImageFilter H W a)
      | UInt32 a \<Rightarrow> UInt32 (ConstantPadImageFilter H W a)
      | UInt64 a \<Rightarrow> UInt64 (ConstantPadImageFilter H W a))"

subsection \<open>The object\<close>

record RadiomicsShape =
  pixelSpacing :: "real \<times> real \<times> real"
  cubicMMPerVoxel :: real
  maskArray :: mask_array
  matrixCoordinates :: "nat list \<times> nat list \<times> nat list"
  targetVoxelArray_size :: nat
  Volume :: real
  SurfaceArea :: real

text \<open>
  Modelled from the spec: the base class \<^verbatim>\<open>radiomics.base.RadiomicsFeaturesBase\<close>, which
  sets \<^verbatim>\<open>self.matrixCoordinates\<close> and \<^verbatim>\<open>self.targetVoxelArray\<close>. The spec has
  MatrixCoordinates as the \<open>(z, y, x)\<close> index triples where the padded mask is true, and
  the volume as the count of true voxels of the padded mask times the spacings.
  \<open>where3\<close> lists the triples in row-major order, as \<^verbatim>\<open>numpy.where\<close> does;
  \<open>np_where\<close> is its result, one index array per axis.
\<close>

definition where3 :: "'a::zero array3 \<Rightarrow> (nat \<times> nat \<times> nat) list" where
  "where3 m =
     concat (map (\<lambda>(k, p).
       concat (map (\<lambda>(j, r).
         map (\<lambda>(i, v). (k, j, i)) (filter (\<lambda>(i, v). v \<noteq> 0) (enumerate 0 r)))
       (enumerate 0 p)))
     (enumerate 0 m))"

definition np_where :: "'a::zero array3 \<Rightarrow> nat list \<times> nat list \<times> nat list" where
  "np_where m = (map fst (where3 m), map (fst \<circ> snd) (where3 m), map (snd \<circ> snd) (where3 m))"

text \<open>A mask image without a true voxel, and the voxels of a mask image in storage
  order, as integers.\<close>

definition mask_all_zero :: "mask_array \<Rightarrow> bool" where
  "mask_all_zero img =
     (case img of
        Signed_or_float a \<Rightarrow> all_zero a
      | UInt8 a \<Rightarrow> all_zero a
      | UInt16 a \<Rightarrow> all_zero a
      | UInt32 a \<Rightarrow> all_zero a
      | UInt64 a \<Rightarrow> all_zero a)"

definition mask_voxels :: "mask_array \<Rightarrow> int list" where
  "mask_voxels img =
     (case img of
        Signed_or_float a \<Rightarrow> concat (concat a)
      | UInt8 a \<Rightarrow> map uint (concat (concat a))
      | UInt16 a \<Rightarrow> map uint (concat (concat a))
      | UInt32 a \<Rightarrow> map uint (concat (concat a))
      | UInt64 a \<Rightarrow> map uint (concat (concat a)))"

text \<open>The same on an array of either element type.\<close>

definition mask_where3 :: "mask_array \<Rightarrow> (nat \<times> nat \<times> nat) list" where
  "mask_where3 img =
     (case img of
        Signed_or_float a \<Rightarrow> where3 a
      | UInt8 a \<Rightarrow> where3 a
      | UInt16 a \<Rightarrow> where3 a
      | UInt32 a \<Rightarrow> where3 a
      | UInt64 a \<Rightarrow> where3 a)"

definition mask_np_where :: "mask_array \<Rightarrow> nat list \<times> nat list \<times> nat list" where
  "mask_np_where img =
     (case img of
        Signed_or_float a \<Rightarrow> np_where a
      | UInt8 a \<Rightarrow> np_where a
      | UInt16 a \<Rightarrow> np_where a
      | UInt32 a \<Rightarrow> np_where a
      | UInt64 a \<Rightarrow> np_where a)"

subsection \<open>Volume and surface area\<close>

text \<open>\<^verbatim>\<open>return (self.targetVoxelArray.size * self.cubicMMPerVoxel)\<close>\<close>

definition getVolumeFeatureValue :: "RadiomicsShape \<Rightarrow> real" where
  "getVolumeFeatureValue self = real (targetVoxelArray_size self) * cubicMMPerVoxel self"

text \<open>
  The three sums of lines 54 to 56 on an array with signed integer or floating elements:
  \<^verbatim>\<open>numpy.sum(numpy.abs(a[:,:,1:] - a[:,:,:-1]))\<close> and the same along the other axes.
\<close>

definition surf_x :: "int array3 \<Rightarrow> int" where
  "surf_x a = np_sum (np_abs (np_subtract (slice_x_from1 a) (slice_x_to_last a)))"

definition surf_y :: "int array3 \<Rightarrow> int" where
  "surf_y a = np_sum (np_abs (np_subtract (slice_y_from1 a) (slice_y_to_last a)))"

definition surf_z :: "int array3 \<Rightarrow> int" where
  "surf_z a = np_sum (np_abs (np_subtract (slice_z_from1 a) (slice_z_to_last a)))"

text \<open>
  The same three sums when the elements of \<^verbatim>\<open>self.maskArray\<close> are \<open>w\<close>-bit unsigned
  integers: the subtraction wraps around,
  \<^verbatim>\<open>numpy.abs\<close> of an unsigned array is the array itself, and \<^verbatim>\<open>numpy.sum\<close> accumulates in
  the unsigned integer of the platform's width (64 bits), or in \<open>w\<close> bits when \<open>w\<close> is
  larger.
\<close>

definition np_sum_uint :: "'a::len word array3 \<Rightarrow> nat" where
  "np_sum_uint a = (\<Sum>p\<leftarrow>a. \<Sum>r\<leftarrow>p. \<Sum>v\<leftarrow>r. unat v) mod 2 ^ max LENGTH('a) 64"

definition surf_x_uint :: "'a::len word array3 \<Rightarrow> nat" where
  "surf_x_uint a = np_sum_uint (np_subtract (slice_x_from1 a) (slice_x_to_last a))"

definition surf_y_uint :: "'a::len word array3 \<Rightarrow> nat" where
  "surf_y_uint a = np_sum_uint (np_subtract (slice_y_from1 a) (slice_y_to_last a))"

definition surf_z_uint :: "'a::len word array3 \<Rightarrow> nat" where
  "surf_z_uint a = np_sum_uint (np_subtract (slice_z_from1 a) (slice_z_to_last a))"

text \<open>The sums at the element type of the mask array.\<close>

definition mask_surf_x :: "mask_array \<Rightarrow> int" where
  "mask_surf_x img =
     (case img of
        Signed_or_float a \<Rightarrow> surf_x a
      | UInt8 a \<Rightarrow> int (surf_x_uint a)
      | UInt16 a \<Rightarrow> int (surf_x_uint a)
      | UInt32 a \<Rightarrow> int (surf_x_uint a)
      | UInt64 a \<Rightarrow> int (surf_x_uint a))"

definition mask_surf_y :: "mask_array \<Rightarrow> int" where
  "mask_surf_y img =
     (case img of
        Signed_or_float a \<Rightarrow> surf_y a
      | UInt8 a \<Rightarrow> int (surf_y_uint a)
      | UInt16 a \<Rightarrow> int (surf_y_uint a)
      | UInt32 a \<Rightarrow> int (surf_y_uint a)
      | UInt64 a \<Rightarrow> int (surf_y_uint a))"

definition mask_surf_z :: "mask_array \<Rightarrow> int" where
  "mask_surf_z img =
     (case img of
        Signed_or_float a \<Rightarrow> surf_z a
      | UInt8 a \<Rightarrow> int (surf_z_uint a)
      | UInt16 a \<Rightarrow> int (surf_z_uint a)
      | UInt32 a \<Rightarrow> int (surf_z_uint a)
      | UInt64 a \<Rightarrow> int (surf_z_uint a))"

text \<open>\<^verbatim>\<open>getSurfaceAreaFeatureValue\<close>, lines 49 to 62.\<close>

definition getSurfaceAreaFeatureValue :: "RadiomicsShape \<Rightarrow> real" where
  "getSurfaceAreaFeatureValue self =
     (case pixelSpacing self of (x, y, z) \<Rightarrow>
        let xz = x * z; yz = y * z; xy = x * y;
            surf_x = mask_surf_x (maskArray self);
            surf_y = mask_surf_y (maskArray self);
            surf_z = mask_surf_z (maskArray self);
            surfaceArea = of_int surf_x * yz;
            surfaceArea = surfaceArea + of_int surf_y * xz;
            surfaceArea = surfaceArea + of_int surf_z * xy
        in surfaceArea)"

text \<open>
  The body of \<^verbatim>\<open>getSurfaceAreaFeatureValue\<close> on an array of \<open>w\<close>-bit unsigned integers
  alone, for any width.
\<close>

definition getSurfaceAreaFeatureValue_uint ::
    "real \<times> real \<times> real \<Rightarrow> 'a::len word array3 \<Rightarrow> real" where
  "getSurfaceAreaFeatureValue_uint spacing a =
     (case spacing of (x, y, z) \<Rightarrow>
        let xz = x * z; yz = y * z; xy = x * y;
            surfaceArea = real (surf_x_uint a) * yz;
            surfaceArea = surfaceArea + real (surf_y_uint a) * xz;
            surfaceArea = surfaceArea + real (surf_z_uint a) * xy
        in surfaceArea)"


text \<open>
  \<^verbatim>\<open>__init__\<close>: \<^verbatim>\<open>reduce(lambda x,y: x*y, self.pixelSpacing)\<close> is \<open>(x * y) * z\<close>; the mask
  is padded, the array re-read from the padded image, and volume and surface area are
  stored. The input mask comes with its in-plane sizes \<open>H\<close> and \<open>W\<close>.
\<close>

definition RadiomicsShape_init ::
    "real \<times> real \<times> real \<Rightarrow> nat \<Rightarrow> nat \<Rightarrow> mask_array \<Rightarrow> RadiomicsShape" where
  "RadiomicsShape_init spacing H W inputMask =
     (let padded = cpif_Execute H W inputMask;
          self = \<lparr> pixelSpacing = spacing,
                   cubicMMPerVoxel = (case spacing of (x, y, z) \<Rightarrow> x * y * z),
                   maskArray = padded,
                   matrixCoordinates = mask_np_where padded,
                   targetVoxelArray_size = length (mask_where3 padded),
                   Volume = 0,
                   SurfaceArea = 0 \<rparr>;
          self = self\<lparr> Volume := getVolumeFeatureValue self \<rparr>;
          self = self\<lparr> SurfaceArea := getSurfaceAreaFeatureValue self \<rparr>
      in self)"

subsection \<open>Floating-point results that are not numbers\<close>

datatype npfloat = Finite real | PosInf | NegInf | NaN

datatype pyerror = ValueError | ZeroDivisionError

text \<open>
  Division and multiplication in which at least one operand is a \<^verbatim>\<open>numpy.float64\<close>:
  NumPy computes the IEEE result and does not raise.
\<close>

fun np_true_divide :: "npfloat \<Rightarrow> npfloat \<Rightarrow> npfloat" where
  "np_true_divide (Finite a) (Finite b) =
     (if b \<noteq> 0 then Finite (a / b)
      else if a = 0 then NaN else if 0 < a then PosInf else NegInf)"
| "np_true_divide (Finite a) PosInf = Finite 0"
| "np_true_divide (Finite a) NegInf = Finite 0"
| "np_true_divide PosInf (Finite b) = (if 0 \<le> b then PosInf else NegInf)"
| "np_true_divide NegInf (Finite b) = (if 0 \<le> b then NegInf else PosInf)"
| "np_true_divide _ _ = NaN"

fun np_multiply :: "npfloat \<Rightarrow> npfloat \<Rightarrow> npfloat" where
  "np_multiply (Finite a) (Finite b) = Finite (a * b)"
| "np_multiply NaN _ = NaN"
| "np_multiply _ NaN = NaN"
| "np_multiply (Finite a) PosInf = (if a = 0 then NaN else if 0 < a then PosInf else NegInf)"
| "np_multiply (Finite a) NegInf = (if a = 0 then NaN else if 0 < a then NegInf else PosInf)"
| "np_multiply PosInf (Finite b) = (if b = 0 then NaN else if 0 < b then PosInf else NegInf)"
| "np_multiply NegInf (Finite b) = (if b = 0 then NaN else if 0 < b then NegInf else PosInf)"
| "np_multiply PosInf PosInf = PosInf"
| "np_multiply NegInf NegInf = PosInf"
| "np_multiply PosInf NegInf = NegInf"
| "np_multiply NegInf PosInf = NegInf"

text \<open>\<^verbatim>\<open>a ** w\<close> for a finite \<^verbatim>\<open>numpy.float64\<close> \<open>a\<close> and a finite exponent: NaN where the
  power is not real, infinity for a negative power of zero.\<close>

definition np_power :: "real \<Rightarrow> real \<Rightarrow> npfloat" where
  "np_power v w =
     (if w = 0 then Finite 1
      else if v = 0 then (if w < 0 then PosInf else Finite 0)
      else if v < 0 \<and> w \<notin> \<int> then NaN
      else if v < 0 then Finite (v powi \<lfloor>w\<rfloor>)
      else Finite (v powr w))"

text \<open>\<^verbatim>\<open>v ** w\<close> for two Python floats (Python 2): a negative base with a fractional
  exponent raises \<^verbatim>\<open>ValueError\<close>, zero to a negative power \<^verbatim>\<open>ZeroDivisionError\<close>.\<close>

definition py_pow :: "real \<Rightarrow> real \<Rightarrow> pyerror + real" where
  "py_pow v w =
     (if w = 0 then Inr 1
      else if v = 0 then (if w < 0 then Inl ZeroDivisionError else Inr 0)
      else if v < 0 \<and> w \<notin> \<int> then Inl ValueError
      else if v < 0 then Inr (v powi \<lfloor>w\<rfloor>)
      else Inr (v powr w))"

text \<open>\<^verbatim>\<open>a / b\<close> for two Python floats.\<close>

definition py_div :: "real \<Rightarrow> real \<Rightarrow> pyerror + real" where
  "py_div a b = (if b = 0 then Inl ZeroDivisionError else Inr (a / b))"

subsection \<open>Descriptors\<close>

text \<open>
  \<^verbatim>\<open>self.Volume\<close> is a Python float (an \<^verbatim>\<open>int\<close> times a \<^verbatim>\<open>float\<close>); \<^verbatim>\<open>self.SurfaceArea\<close> is a
  \<^verbatim>\<open>numpy.float64\<close> (the \<^verbatim>\<open>numpy.sum\<close> of an array times a \<^verbatim>\<open>float\<close>). An operation with
  \<^verbatim>\<open>self.SurfaceArea\<close> or something computed from it as an operand is NumPy's.
\<close>

text \<open>\<^verbatim>\<open>return (self.SurfaceArea/self.Volume)\<close>\<close>

definition getSurfaceVolumeRatioFeatureValue :: "RadiomicsShape \<Rightarrow> pyerror + npfloat" where
  "getSurfaceVolumeRatioFeatureValue self =
     Inr (np_true_divide (Finite (SurfaceArea self)) (Finite (Volume self)))"

text \<open>\<^verbatim>\<open>return ( (self.Volume) / ((self.SurfaceArea)**(2.0/3.0) * numpy.sqrt(numpy.pi)) )\<close>\<close>

definition getCompactness1FeatureValue :: "RadiomicsShape \<Rightarrow> pyerror + npfloat" where
  "getCompactness1FeatureValue self =
     Inr (np_true_divide (Finite (Volume self))
            (np_multiply (np_power (SurfaceArea self) (2 / 3)) (Finite (sqrt pi))))"

text \<open>\<^verbatim>\<open>return ((36.0 * numpy.pi) * ((self.Volume)**2.0)/((self.SurfaceArea)**3.0))\<close>\<close>

definition getCompactness2FeatureValue :: "RadiomicsShape \<Rightarrow> pyerror + npfloat" where
  "getCompactness2FeatureValue self =
     (case py_pow (Volume self) 2 of
        Inl e \<Rightarrow> Inl e
      | Inr v2 \<Rightarrow>
          Inr (np_true_divide (Finite ((36 * pi) * v2)) (np_power (SurfaceArea self) 3)))"

text \<open>
  \<^verbatim>\<open>R = ( (3.0*self.Volume)/(4.0*numpy.pi) )**(1.0/3.0)\<close>
  \<^verbatim>\<open>return ( (self.SurfaceArea)/(4.0*numpy.pi*(R**2.0)) )\<close>
\<close>

definition getSphericalDisproportionFeatureValue :: "RadiomicsShape \<Rightarrow> pyerror + npfloat" where
  "getSphericalDisproportionFeatureValue self =
     (case py_div (3 * Volume self) (4 * pi) of
        Inl e \<Rightarrow> Inl e
      | Inr q \<Rightarrow>
     (case py_pow q (1 / 3) of
        Inl e \<Rightarrow> Inl e
      | Inr R \<Rightarrow>
     (case py_pow R 2 of
        Inl e \<Rightarrow> Inl e
      | Inr R2 \<Rightarrow>
          Inr (np_true_divide (Finite (SurfaceArea self)) (Finite (4 * pi * R2))))))"

text \<open>\<^verbatim>\<open>return ( ((numpy.pi)**(1.0/3.0) * (6.0 * self.Volume)**(2.0/3.0)) / (self.SurfaceArea) )\<close>\<close>

definition getSphericityFeatureValue :: "RadiomicsShape \<Rightarrow> pyerror + npfloat" where
  "getSphericityFeatureValue self =
     (case py_pow pi (1 / 3) of
        Inl e \<Rightarrow> Inl e
      | Inr p \<Rightarrow>
     (case py_pow (6 * Volume self) (2 / 3) of
        Inl e \<Rightarrow> Inl e
      | Inr v \<Rightarrow>
          Inr (np_true_divide (Finite (p * v)) (Finite (SurfaceArea self)))))"

subsection \<open>Maximum 3D diameter\<close>

text \<open>\<^verbatim>\<open>numpy.min\<close>, \<^verbatim>\<open>numpy.max\<close> and \<^verbatim>\<open>.max()\<close>: a reduction of an empty array raises
  \<^verbatim>\<open>ValueError\<close>.\<close>

definition np_amin :: "'a::linorder list \<Rightarrow> pyerror + 'a" where
  "np_amin vs = (case vs of [] \<Rightarrow> Inl ValueError | v # rest \<Rightarrow> Inr (fold min rest v))"

definition np_amax :: "'a::linorder list \<Rightarrow> pyerror + 'a" where
  "np_amax vs = (case vs of [] \<Rightarrow> Inl ValueError | v # rest \<Rightarrow> Inr (fold max rest v))"

definition then_do :: "pyerror + 'a \<Rightarrow> ('a \<Rightarrow> pyerror + 'b) \<Rightarrow> pyerror + 'b" where
  "then_do r f = (case r of Inl e \<Rightarrow> Inl e | Inr v \<Rightarrow> f v)"

text \<open>A row of the coordinate array times \<^verbatim>\<open>[z,y,x]\<close>.\<close>

definition scale_zyx :: "real \<times> real \<times> real \<Rightarrow> nat \<times> nat \<times> nat \<Rightarrow> real \<times> real \<times> real" where
  "scale_zyx spacing c =
     (case spacing of (x, y, z) \<Rightarrow> case c of (k, j, i) \<Rightarrow> (real k * z, real j * y, real i * x))"

text \<open>One entry of \<^verbatim>\<open>numpy.sqrt(numpy.sum((edgeVoxelsMinCoords-voxel1)**2, 1))\<close>.\<close>

definition voxel_distance :: "real \<times> real \<times> real \<Rightarrow> real \<times> real \<times> real \<Rightarrow> real" where
  "voxel_distance v2 v1 =
     (case v2 of (c2, b2, a2) \<Rightarrow> case v1 of (c1, b1, a1) \<Rightarrow>
        sqrt ((c2 - c1)\<^sup>2 + (b2 - b1)\<^sup>2 + (a2 - a1)\<^sup>2))"

text \<open>
  The loop \<^verbatim>\<open>for voxel1 in edgeVoxelsMaxCoords\<close>, with \<^verbatim>\<open>maxDiameter\<close> as its state:
  \<^verbatim>\<open>if voxelDistances.max() > maxDiameter: maxDiameter = voxelDistances.max()\<close>.
\<close>

fun diameter_loop ::
    "(real \<times> real \<times> real) list \<Rightarrow> (real \<times> real \<times> real) list \<Rightarrow> real \<Rightarrow> pyerror + real" where
  "diameter_loop edgeVoxelsMinCoords [] maxDiameter = Inr maxDiameter"
| "diameter_loop edgeVoxelsMinCoords (voxel1 # rest) maxDiameter =
     then_do (np_amax (map (\<lambda>v2. voxel_distance v2 voxel1) edgeVoxelsMinCoords))
       (\<lambda>mx. diameter_loop edgeVoxelsMinCoords rest
                (if mx > maxDiameter then mx else maxDiameter))"

text \<open>\<^verbatim>\<open>numpy.vstack([a[a[:,0]==b0], a[a[:,1]==b1], a[a[:,2]==b2]])\<close>: the rows on the bound
  of axis 0, then those of axis 1, then those of axis 2, duplicates kept.\<close>

definition edge_voxels :: "(nat \<times> nat \<times> nat) list \<Rightarrow> nat \<times> nat \<times> nat \<Rightarrow> (nat \<times> nat \<times> nat) list" where
  "edge_voxels a bounds =
     (case bounds of (b0, b1, b2) \<Rightarrow>
        filter (\<lambda>(k, j, i). k = b0) a @ filter (\<lambda>(k, j, i). j = b1) a
          @ filter (\<lambda>(k, j, i). i = b2) a)"

definition getMaximum3DDiameterFeatureValue :: "RadiomicsShape \<Rightarrow> pyerror + real" where
  "getMaximum3DDiameterFeatureValue self =
     (case pixelSpacing self of (x, y, z) \<Rightarrow>
      case matrixCoordinates self of (c0, c1, c2) \<Rightarrow>
        then_do (np_amin c0) (\<lambda>min0. then_do (np_amin c1) (\<lambda>min1. then_do (np_amin c2) (\<lambda>min2.
        then_do (np_amax c0) (\<lambda>max0. then_do (np_amax c1) (\<lambda>max1. then_do (np_amax c2) (\<lambda>max2.
          let a = zip c0 (zip c1 c2);
              edgeVoxelsMinCoords = map (scale_zyx (x, y, z)) (edge_voxels a (min0, min1, min2));
              edgeVoxelsMaxCoords = map (scale_zyx (x, y, z)) (edge_voxels a (max0, max1, max2))
          in diameter_loop edgeVoxelsMinCoords edgeVoxelsMaxCoords 1)))))))"

text \<open>
  The two stacked arrays of scaled edge voxels of a non-empty coordinate set, with the
  bounds that \<^verbatim>\<open>numpy.min\<close> and \<^verbatim>\<open>numpy.max\<close> return there, and the set of distances
  between a row of the one and a row of the other: the values the loop compares.
\<close>

definition edge_min_coords ::
    "real \<times> real \<times> real \<Rightarrow> nat list \<times> nat list \<times> nat list \<Rightarrow> (real \<times> real \<times> real) list" where
  "edge_min_coords spacing coords =
     (case coords of (c0, c1, c2) \<Rightarrow>
        map (scale_zyx spacing)
          (edge_voxels (zip c0 (zip c1 c2)) (Min (set c0), Min (set c1), Min (set c2))))"

definition edge_max_coords ::
    "real \<times> real \<times> real \<Rightarrow> nat list \<times> nat list \<times> nat list \<Rightarrow> (real \<times> real \<times> real) list" where
  "edge_max_coords spacing coords =
     (case coords of (c0, c1, c2) \<Rightarrow>
        map (scale_zyx spacing)
          (edge_voxels (zip c0 (zip c1 c2)) (Max (set c0), Max (set c1), Max (set c2))))"

definition candidate_distances ::
    "(real \<times> real \<times> real) list \<Rightarrow> (real \<times> real \<times> real) list \<Rightarrow> real set" where
  "candidate_distances edgeMin edgeMax =
     (\<lambda>(v1, v2). voxel_distance v2 v1) ` (set edgeMax \<times> set edgeMin)"

text \<open>The bounding box of the example mask after padding, in scaled coordinates.\<close>

definition in_box :: "real \<times> real \<times> real \<Rightarrow> bool" where
  "in_box v = (case v of (c, b, a) \<Rightarrow> 1 \<le> c \<and> c \<le> 3 \<and> 1 \<le> b \<and> b \<le> 3 \<and> 1 \<le> a \<and> a \<le> 3)"

subsection \<open>Exposed faces, as the specification counts them\<close>

text \<open>
  The number of pairs of voxels adjacent along one axis whose mask values differ: the
  positions \<open>i\<close> and \<open>i + 1\<close> for the \<open>N - 1\<close> values of \<open>i\<close> along an axis of length \<open>N\<close>.
  These follow the specification's words and are compared with \<open>surf_x\<close>, \<open>surf_y\<close> and
  \<open>surf_z\<close> below.
\<close>

definition differing_pairs_x :: "'a array3 \<Rightarrow> nat \<Rightarrow> nat \<Rightarrow> nat \<Rightarrow> nat" where
  "differing_pairs_x a D H W =
     length (filter (\<lambda>(k, j, i). a ! k ! j ! Suc i \<noteq> a ! k ! j ! i)
       (List.product [0..<D] (List.product [0..<H] [0..<W - 1])))"

definition differing_pairs_y :: "'a array3 \<Rightarrow> nat \<Rightarrow> nat \<Rightarrow> nat \<Rightarrow> nat" where
  "differing_pairs_y a D H W =
     length (filter (\<lambda>(k, j, i). a ! k ! Suc j ! i \<noteq> a ! k ! j ! i)
       (List.product [0..<D] (List.product [0..<H - 1] [0..<W])))"

definition differing_pairs_z :: "'a array3 \<Rightarrow> nat \<Rightarrow> nat \<Rightarrow> nat \<Rightarrow> nat" where
  "differing_pairs_z a D H W =
     length (filter (\<lambda>(k, j, i). a ! Suc k ! j ! i \<noteq> a ! k ! j ! i)
       (List.product [0..<D - 1] (List.product [0..<H] [0..<W])))"

text \<open>
  The differing pairs by direction: the mask rises from 0 to 1, or falls from 1 to 0, from
  index \<open>i\<close> to index \<open>i + 1\<close>.
\<close>

definition rising_pairs_x :: "'a::{zero,one} array3 \<Rightarrow> nat \<Rightarrow> nat \<Rightarrow> nat \<Rightarrow> nat" where
  "rising_pairs_x a D H W =
     length (filter (\<lambda>(k, j, i). a ! k ! j ! Suc i = 1 \<and> a ! k ! j ! i = 0)
       (List.product [0..<D] (List.product [0..<H] [0..<W - 1])))"

definition falling_pairs_x :: "'a::{zero,one} array3 \<Rightarrow> nat \<Rightarrow> nat \<Rightarrow> nat \<Rightarrow> nat" where
  "falling_pairs_x a D H W =
     length (filter (\<lambda>(k, j, i). a ! k ! j ! Suc i = 0 \<and> a ! k ! j ! i = 1)
       (List.product [0..<D] (List.product [0..<H] [0..<W - 1])))"

definition rising_pairs_y :: "'a::{zero,one} array3 \<Rightarrow> nat \<Rightarrow> nat \<Rightarrow> nat \<Rightarrow> nat" where
  "rising_pairs_y a D H W =
     length (filter (\<lambda>(k, j, i). a ! k ! Suc j ! i = 1 \<and> a ! k ! j ! i = 0)
       (List.product [0..<D] (List.product [0..<H - 1] [0..<W])))"

definition falling_pairs_y :: "'a::{zero,one} array3 \<Rightarrow> nat \<Rightarrow> nat \<Rightarrow> nat \<Rightarrow> nat" where
  "falling_pairs_y a D H W =
     length (filter (\<lambda>(k, j, i). a ! k ! Suc j ! i = 0 \<and> a ! k ! j ! i = 1)
       (List.product [0..<D] (List.product [0..<H - 1] [0..<W])))"

definition rising_pairs_z :: "'a::{zero,one} array3 \<Rightarrow> nat \<Rightarrow> nat \<Rightarrow> nat \<Rightarrow> nat" where
  "rising_pairs_z a D H W =
     length (filter (\<lambda>(k, j, i). a ! Suc k ! j ! i = 1 \<and> a ! k ! j ! i = 0)
       (List.product [0..<D - 1] (List.product [0..<H] [0..<W])))"

definition falling_pairs_z :: "'a::{zero,one} array3 \<Rightarrow> nat \<Rightarrow> nat \<Rightarrow> nat \<Rightarrow> nat" where
  "falling_pairs_z a D H W =
     length (filter (\<lambda>(k, j, i). a ! Suc k ! j ! i = 0 \<and> a ! k ! j ! i = 1)
       (List.product [0..<D - 1] (List.product [0..<H] [0..<W])))"


subsection \<open>The example mask\<close>

definition cube3 :: "int array3" where
  "cube3 = replicate 3 (replicate 3 (replicate 3 1))"

text \<open>One voxel of an 8-bit unsigned mask, padded.\<close>

definition voxel8 :: "8 word array3" where
  "voxel8 = [[[0,0,0],[0,0,0],[0,0,0]], [[0,0,0],[0,1,0],[0,0,0]], [[0,0,0],[0,0,0],[0,0,0]]]"



section \<open>The constructed object\<close>

lemma init_fields:
  "pixelSpacing (RadiomicsShape_init s H W img) = s"
  "cubicMMPerVoxel (RadiomicsShape_init s H W img) = (case s of (x, y, z) \<Rightarrow> x * y * z)"
  "maskArray (RadiomicsShape_init s H W (Signed_or_float m))
     = Signed_or_float (ConstantPadImageFilter H W m)"
  "matrixCoordinates (RadiomicsShape_init s H W (Signed_or_float m))
     = np_where (ConstantPadImageFilter H W m)"
  "targetVoxelArray_size (RadiomicsShape_init s H W (Signed_or_float m))
     = length (where3 (ConstantPadImageFilter H W m))"
  by (simp_all add: RadiomicsShape_init_def Let_def cpif_Execute_def mask_np_where_def
      mask_where3_def)

lemma init_Volume:
  "Volume (RadiomicsShape_init (x, y, z) H W (Signed_or_float m))
     = real (length (where3 (ConstantPadImageFilter H W m))) * (x * y * z)"
  by (simp add: RadiomicsShape_init_def Let_def getVolumeFeatureValue_def cpif_Execute_def
      mask_where3_def)

lemma init_SurfaceArea:
  "SurfaceArea (RadiomicsShape_init (x, y, z) H W (Signed_or_float m)) =
     of_int (surf_x (ConstantPadImageFilter H W m)) * (y * z)
   + of_int (surf_y (ConstantPadImageFilter H W m)) * (x * z)
   + of_int (surf_z (ConstantPadImageFilter H W m)) * (x * y)"
  by (simp add: RadiomicsShape_init_def Let_def getSurfaceAreaFeatureValue_def
      cpif_Execute_def mask_surf_x_def mask_surf_y_def mask_surf_z_def)

lemma getVolume_init:
  "getVolumeFeatureValue (RadiomicsShape_init s H W img) = Volume (RadiomicsShape_init s H W img)"
  by (simp add: RadiomicsShape_init_def Let_def getVolumeFeatureValue_def)

lemma getSurfaceArea_init:
  "getSurfaceAreaFeatureValue (RadiomicsShape_init s H W img)
     = SurfaceArea (RadiomicsShape_init s H W img)"
  by (simp add: RadiomicsShape_init_def Let_def getSurfaceAreaFeatureValue_def)

section \<open>Evaluation on the cube\<close>

lemma pad_cube3:
  "ConstantPadImageFilter 3 3 cube3 =
     [[[0,0,0,0,0],[0,0,0,0,0],[0,0,0,0,0],[0,0,0,0,0],[0,0,0,0,0]],
      [[0,0,0,0,0],[0,1,1,1,0],[0,1,1,1,0],[0,1,1,1,0],[0,0,0,0,0]],
      [[0,0,0,0,0],[0,1,1,1,0],[0,1,1,1,0],[0,1,1,1,0],[0,0,0,0,0]],
      [[0,0,0,0,0],[0,1,1,1,0],[0,1,1,1,0],[0,1,1,1,0],[0,0,0,0,0]],
      [[0,0,0,0,0],[0,0,0,0,0],[0,0,0,0,0],[0,0,0,0,0],[0,0,0,0,0]]]"
  by (simp add: ConstantPadImageFilter_def pad_plane_def pad_row_def cube3_def
      numeral_eq_Suc)

lemma surf_cube3:
  "surf_x (ConstantPadImageFilter 3 3 cube3) = 18"
  "surf_y (ConstantPadImageFilter 3 3 cube3) = 18"
  "surf_z (ConstantPadImageFilter 3 3 cube3) = 18"
  by (simp_all add: pad_cube3 surf_x_def surf_y_def surf_z_def np_sum_def np_abs_def
      np_subtract_def slice_x_from1_def slice_x_to_last_def slice_y_from1_def
      slice_y_to_last_def slice_z_from1_def slice_z_to_last_def)

lemma where3_cube3:
  "where3 (ConstantPadImageFilter 3 3 cube3) =
     [(1,1,1),(1,1,2),(1,1,3),(1,2,1),(1,2,2),(1,2,3),(1,3,1),(1,3,2),(1,3,3),
      (2,1,1),(2,1,2),(2,1,3),(2,2,1),(2,2,2),(2,2,3),(2,3,1),(2,3,2),(2,3,3),
      (3,1,1),(3,1,2),(3,1,3),(3,2,1),(3,2,2),(3,2,3),(3,3,1),(3,3,2),(3,3,3)]"
  by (simp add: pad_cube3 where3_def enumerate_eq_zip upt_conv_Cons)

lemma cube3_Volume: "Volume (RadiomicsShape_init (1, 1, 1) 3 3 (Signed_or_float cube3)) = 27"
  by (simp add: init_Volume where3_cube3)

lemma cube3_SurfaceArea: "SurfaceArea (RadiomicsShape_init (1, 1, 1) 3 3 (Signed_or_float cube3)) = 54"
  by (simp add: init_SurfaceArea surf_cube3)


section \<open>Arrays in index form\<close>

lemma map2_nth:
  "length xs = n \<Longrightarrow> length ys = n \<Longrightarrow> map2 f xs ys = map (\<lambda>i. f (xs ! i) (ys ! i)) [0..<n]"
  by (rule nth_equalityI) simp_all

lemma map2_shift:
  "length xs = n \<Longrightarrow>
   map2 f (tl xs) (butlast xs) = map (\<lambda>i. f (xs ! Suc i) (xs ! i)) [0..<n - 1]"
  by (rule nth_equalityI) (simp_all add: nth_tl nth_butlast)

lemma map2_same:
  "length xs = n \<Longrightarrow>
   map2 f (map g xs) (map h xs) = map (\<lambda>i. f (g (xs ! i)) (h (xs ! i))) [0..<n]"
  by (rule nth_equalityI) simp_all

lemma has_shape_nth:
  "has_shape a D H W \<Longrightarrow> k < D \<Longrightarrow> length (a ! k) = H"
  "has_shape a D H W \<Longrightarrow> k < D \<Longrightarrow> j < H \<Longrightarrow> length (a ! k ! j) = W"
  by (auto simp: has_shape_def list_all_length)

lemma has_shape_length: "has_shape a D H W \<Longrightarrow> length a = D"
  by (simp add: has_shape_def)

text \<open>The difference of the two slices along each axis, entry by entry.\<close>

lemma diff_x_index:
  assumes "has_shape a D H W"
  shows "map2 (map2 (map2 f)) (slice_x_from1 a) (slice_x_to_last a)
       = map (\<lambda>k. map (\<lambda>j. map (\<lambda>i. f (a ! k ! j ! Suc i) (a ! k ! j ! i))
           [0..<W - 1]) [0..<H]) [0..<D]"
proof -
  have row: "map2 f (tl (a ! k ! j)) (butlast (a ! k ! j))
        = map (\<lambda>i. f (a ! k ! j ! Suc i) (a ! k ! j ! i)) [0..<W - 1]"
    if "k < D" "j < H" for k j
    using has_shape_nth(2)[OF assms that] by (rule map2_shift)
  have plane: "map2 (map2 f) (map tl (a ! k)) (map butlast (a ! k))
        = map (\<lambda>j. map (\<lambda>i. f (a ! k ! j ! Suc i) (a ! k ! j ! i)) [0..<W - 1]) [0..<H]"
    if "k < D" for k
    using has_shape_nth(1)[OF assms that] row[OF that] by (simp add: map2_same)
  show ?thesis
    unfolding slice_x_from1_def slice_x_to_last_def
    using has_shape_length[OF assms] plane by (simp add: map2_same)
qed

lemma diff_y_index:
  assumes "has_shape a D H W"
  shows "map2 (map2 (map2 f)) (slice_y_from1 a) (slice_y_to_last a)
       = map (\<lambda>k. map (\<lambda>j. map (\<lambda>i. f (a ! k ! Suc j ! i) (a ! k ! j ! i))
           [0..<W]) [0..<H - 1]) [0..<D]"
proof -
  have row: "map2 f (a ! k ! Suc j) (a ! k ! j)
        = map (\<lambda>i. f (a ! k ! Suc j ! i) (a ! k ! j ! i)) [0..<W]"
    if "k < D" "Suc j < H" for k j
    using has_shape_nth(2)[OF assms that] has_shape_nth(2)[OF assms that(1), of j] that
    by (simp add: map2_nth)
  have plane: "map2 (map2 f) (tl (a ! k)) (butlast (a ! k))
        = map (\<lambda>j. map (\<lambda>i. f (a ! k ! Suc j ! i) (a ! k ! j ! i)) [0..<W]) [0..<H - 1]"
    if "k < D" for k
    using has_shape_nth(1)[OF assms that] row[OF that] by (simp add: map2_shift)
  show ?thesis
    unfolding slice_y_from1_def slice_y_to_last_def
    using has_shape_length[OF assms] plane by (simp add: map2_same)
qed

lemma diff_z_index:
  assumes "has_shape a D H W"
  shows "map2 (map2 (map2 f)) (slice_z_from1 a) (slice_z_to_last a)
       = map (\<lambda>k. map (\<lambda>j. map (\<lambda>i. f (a ! Suc k ! j ! i) (a ! k ! j ! i))
           [0..<W]) [0..<H]) [0..<D - 1]"
proof -
  have row: "map2 f (a ! Suc k ! j) (a ! k ! j)
        = map (\<lambda>i. f (a ! Suc k ! j ! i) (a ! k ! j ! i)) [0..<W]"
    if "Suc k < D" "j < H" for k j
    using has_shape_nth(2)[OF assms that] has_shape_nth(2)[OF assms _ that(2), of k] that
    by (simp add: map2_nth)
  have plane: "map2 (map2 f) (a ! Suc k) (a ! k)
        = map (\<lambda>j. map (\<lambda>i. f (a ! Suc k ! j ! i) (a ! k ! j ! i)) [0..<W]) [0..<H]"
    if "Suc k < D" for k
    using has_shape_nth(1)[OF assms that] has_shape_nth(1)[OF assms, of k] that row[OF that]
    by (simp add: map2_nth)
  show ?thesis
    unfolding slice_z_from1_def slice_z_to_last_def
    using has_shape_length[OF assms] plane by (simp add: map2_shift)
qed

lemma surf_x_index:
  "has_shape a D H W \<Longrightarrow>
   surf_x a = (\<Sum>k\<leftarrow>[0..<D]. \<Sum>j\<leftarrow>[0..<H]. \<Sum>i\<leftarrow>[0..<W - 1].
                 \<bar>a ! k ! j ! Suc i - a ! k ! j ! i\<bar>)"
  by (simp add: surf_x_def np_subtract_def np_abs_def np_sum_def diff_x_index comp_def)

lemma surf_y_index:
  "has_shape a D H W \<Longrightarrow>
   surf_y a = (\<Sum>k\<leftarrow>[0..<D]. \<Sum>j\<leftarrow>[0..<H - 1]. \<Sum>i\<leftarrow>[0..<W].
                 \<bar>a ! k ! Suc j ! i - a ! k ! j ! i\<bar>)"
  by (simp add: surf_y_def np_subtract_def np_abs_def np_sum_def diff_y_index comp_def)

lemma surf_z_index:
  "has_shape a D H W \<Longrightarrow>
   surf_z a = (\<Sum>k\<leftarrow>[0..<D - 1]. \<Sum>j\<leftarrow>[0..<H]. \<Sum>i\<leftarrow>[0..<W].
                 \<bar>a ! Suc k ! j ! i - a ! k ! j ! i\<bar>)"
  by (simp add: surf_z_def np_subtract_def np_abs_def np_sum_def diff_z_index comp_def)

section \<open>Surface area counts exposed faces\<close>

lemma length_filter_sum: "int (length (filter P xs)) = (\<Sum>x\<leftarrow>xs. if P x then 1 else 0)"
  by (induction xs) simp_all

lemma sum_list_product:
  fixes f :: "'a \<times> 'b \<Rightarrow> 'c::comm_monoid_add"
  shows "(\<Sum>p\<leftarrow>List.product xs ys. f p) = (\<Sum>x\<leftarrow>xs. \<Sum>y\<leftarrow>ys. f (x, y))"
  by (induction xs) (simp_all add: comp_def)

lemma sum_list_cong_set:
  "(\<And>x. x \<in> set xs \<Longrightarrow> f x = g x) \<Longrightarrow> sum_list (map f xs) = sum_list (map g xs)"
  by (induction xs) simp_all

lemma is_binary_nth:
  "is_binary a \<Longrightarrow> k < length a \<Longrightarrow> j < length (a ! k) \<Longrightarrow> i < length (a ! k ! j)
     \<Longrightarrow> a ! k ! j ! i = 0 \<or> a ! k ! j ! i = 1"
  by (simp add: is_binary_def list_all_length)

lemma is_binary_shape_nth:
  assumes "has_shape a D H W" "is_binary a" "k < D" "j < H" "i < W"
  shows "a ! k ! j ! i = 0 \<or> a ! k ! j ! i = 1"
  using is_binary_nth[OF assms(2), of k j i] assms(3-5)
    has_shape_length[OF assms(1)] has_shape_nth[OF assms(1)]
  by simp

lemma binary_absdiff:
  "(u = 0 \<or> u = 1) \<Longrightarrow> (v = 0 \<or> v = 1) \<Longrightarrow> \<bar>u - v\<bar> = (if u \<noteq> v then 1 else (0::int))"
  by auto

lemma surf_x_count:
  assumes sh: "has_shape a D H W" and bin: "is_binary a"
  shows "surf_x a = int (differing_pairs_x a D H W)"
proof -
  note v = is_binary_shape_nth[OF sh bin]
  have "surf_x a = (\<Sum>k\<leftarrow>[0..<D]. \<Sum>j\<leftarrow>[0..<H]. \<Sum>i\<leftarrow>[0..<W - 1].
           if a ! k ! j ! Suc i \<noteq> a ! k ! j ! i then 1 else 0)"
    unfolding surf_x_index[OF sh]
    by (intro sum_list_cong_set binary_absdiff v) auto
  then show ?thesis
    by (simp add: differing_pairs_x_def length_filter_sum sum_list_product)
qed

lemma surf_y_count:
  assumes sh: "has_shape a D H W" and bin: "is_binary a"
  shows "surf_y a = int (differing_pairs_y a D H W)"
proof -
  note v = is_binary_shape_nth[OF sh bin]
  have "surf_y a = (\<Sum>k\<leftarrow>[0..<D]. \<Sum>j\<leftarrow>[0..<H - 1]. \<Sum>i\<leftarrow>[0..<W].
           if a ! k ! Suc j ! i \<noteq> a ! k ! j ! i then 1 else 0)"
    unfolding surf_y_index[OF sh]
    by (intro sum_list_cong_set binary_absdiff v) auto
  then show ?thesis
    by (simp add: differing_pairs_y_def length_filter_sum sum_list_product)
qed

lemma surf_z_count:
  assumes sh: "has_shape a D H W" and bin: "is_binary a"
  shows "surf_z a = int (differing_pairs_z a D H W)"
proof -
  note v = is_binary_shape_nth[OF sh bin]
  have "surf_z a = (\<Sum>k\<leftarrow>[0..<D - 1]. \<Sum>j\<leftarrow>[0..<H]. \<Sum>i\<leftarrow>[0..<W].
           if a ! Suc k ! j ! i \<noteq> a ! k ! j ! i then 1 else 0)"
    unfolding surf_z_index[OF sh]
    by (intro sum_list_cong_set binary_absdiff v) auto
  then show ?thesis
    by (simp add: differing_pairs_z_def length_filter_sum sum_list_product)
qed

text \<open>
  When the elements of the mask array are signed integers or floats: for a binary array
  of shape \<open>(D, H, W)\<close> and spacing \<open>(sx, sy, sz)\<close>, \<open>getSurfaceAreaFeatureValue\<close> is the
  number of adjacent pairs that differ along x times \<open>sy sz\<close>, plus the number along y
  times \<open>sx sz\<close>, plus the number along z times \<open>sx sy\<close>.
\<close>

lemma surface_area_signed_counts_faces:
  assumes "maskArray self = Signed_or_float a"
    and "has_shape a D H W"
    and "is_binary a"
    and "pixelSpacing self = (sx, sy, sz)"
  shows "getSurfaceAreaFeatureValue self =
           real (differing_pairs_x a D H W) * (sy * sz)
         + real (differing_pairs_y a D H W) * (sx * sz)
         + real (differing_pairs_z a D H W) * (sx * sy)"
  using assms
  by (simp add: getSurfaceAreaFeatureValue_def Let_def mask_surf_x_def mask_surf_y_def
      mask_surf_z_def surf_x_count surf_y_count surf_z_count)

section \<open>Sphericity and spherical disproportion\<close>

lemma sphere_identity:
  fixes V A :: real
  assumes V: "0 < V" and A: "0 < A"
  shows "(pi powr (1 / 3) * (6 * V) powr (2 / 3) / A)
           * (A / (4 * pi * ((3 * V / (4 * pi)) powr (1 / 3))\<^sup>2)) = 1"
proof -
  have pi0: "0 < pi" by simp
  define q where "q = 3 * V / (4 * pi)"
  have q0: "0 < q" using V pi0 by (simp add: q_def)
  have R2: "(q powr (1 / 3))\<^sup>2 = q powr (2 / 3)"
    using q0 by (simp add: powr_powr flip: powr_numeral)
  have six: "6 * V = 8 * pi * q" using pi0 by (simp add: q_def)
  have e8: "(8::real) powr (2 / 3) = 4"
  proof -
    have "(8::real) = 2 powr 3" by simp
    then have "(8::real) powr (2 / 3) = (2 powr 3) powr (2 / 3)" by simp
    also have "\<dots> = 2 powr 2" by (simp only: powr_powr) simp
    finally show ?thesis by simp
  qed
  have split: "(8 * pi * q) powr (2 / 3) = 4 * pi powr (2 / 3) * q powr (2 / 3)"
    using pi0 q0 by (simp add: powr_mult e8)
  have pp: "pi powr (1 / 3) * pi powr (2 / 3) = pi"
    using pi0 by (simp flip: powr_add)
  have qp: "0 < q powr (2 / 3)" using q0 by simp
  have "(pi powr (1 / 3) * (6 * V) powr (2 / 3) / A) * (A / (4 * pi * (q powr (1 / 3))\<^sup>2))
      = (pi powr (1 / 3) * (4 * pi powr (2 / 3) * q powr (2 / 3)) / A)
          * (A / (4 * pi * q powr (2 / 3)))"
    by (simp only: R2 six split)
  also have "\<dots> = (4 * (pi powr (1 / 3) * pi powr (2 / 3)) * q powr (2 / 3))
                    / (4 * pi * q powr (2 / 3))"
    using A by (simp add: field_simps)
  also have "\<dots> = 1" using pi0 qp by (simp only: pp) simp
  finally show ?thesis unfolding q_def .
qed

lemma py_pow_pos: "0 < v \<Longrightarrow> w \<noteq> 0 \<Longrightarrow> py_pow v w = Inr (v powr w)"
  by (simp add: py_pow_def)

lemma py_pow_2: "py_pow v 2 = Inr (v\<^sup>2)"
  by (cases "v = 0"; cases "v < 0") (simp_all add: py_pow_def power_int_def)

lemma sphericity_pos:
  "0 < Volume self \<Longrightarrow> 0 < SurfaceArea self \<Longrightarrow>
   getSphericityFeatureValue self
     = Inr (Finite (pi powr (1 / 3) * (6 * Volume self) powr (2 / 3) / SurfaceArea self))"
  by (simp add: getSphericityFeatureValue_def py_pow_pos)

lemma disproportion_pos:
  "0 < Volume self \<Longrightarrow> 0 < SurfaceArea self \<Longrightarrow>
   getSphericalDisproportionFeatureValue self
     = Inr (Finite (SurfaceArea self
                      / (4 * pi * ((3 * Volume self / (4 * pi)) powr (1 / 3))\<^sup>2)))"
  by (simp add: getSphericalDisproportionFeatureValue_def py_pow_pos py_pow_2 py_div_def)

text \<open>
  C3. For \<open>Volume > 0\<close> and \<open>SurfaceArea > 0\<close>, sphericity is
  \<open>\<pi>\<^sup>1\<^sup>/\<^sup>3 (6V)\<^sup>2\<^sup>/\<^sup>3 / A\<close>, spherical disproportion is \<open>A / (4 \<pi> R\<^sup>2)\<close> with
  \<open>R = (3V / (4\<pi>))\<^sup>1\<^sup>/\<^sup>3\<close>, both are finite numbers, and their product is 1.
\<close>

theorem sphericity_times_disproportion:
  assumes "0 < Volume self" and "0 < SurfaceArea self"
  shows "\<exists>s d. getSphericityFeatureValue self = Inr (Finite s)
             \<and> getSphericalDisproportionFeatureValue self = Inr (Finite d)
             \<and> s = pi powr (1 / 3) * (6 * Volume self) powr (2 / 3) / SurfaceArea self
             \<and> d = SurfaceArea self
                     / (4 * pi * ((3 * Volume self / (4 * pi)) powr (1 / 3))\<^sup>2)
             \<and> s * d = 1"
proof -
  let ?s = "pi powr (1 / 3) * (6 * Volume self) powr (2 / 3) / SurfaceArea self"
  let ?d = "SurfaceArea self / (4 * pi * ((3 * Volume self / (4 * pi)) powr (1 / 3))\<^sup>2)"
  have "getSphericityFeatureValue self = Inr (Finite ?s)"
    by (rule sphericity_pos[OF assms])
  moreover have "getSphericalDisproportionFeatureValue self = Inr (Finite ?d)"
    by (rule disproportion_pos[OF assms])
  moreover have "?s * ?d = 1"
    by (rule sphere_identity[OF assms])
  ultimately show ?thesis by blast
qed

theorem sphericity_times_disproportion_witness:
  "0 < Volume (RadiomicsShape_init (1, 1, 1) 3 3 (Signed_or_float cube3))
   \<and> 0 < SurfaceArea (RadiomicsShape_init (1, 1, 1) 3 3 (Signed_or_float cube3))
   \<and> (\<exists>s d. getSphericityFeatureValue (RadiomicsShape_init (1, 1, 1) 3 3 (Signed_or_float cube3))
               = Inr (Finite s)
           \<and> getSphericalDisproportionFeatureValue (RadiomicsShape_init (1, 1, 1) 3 3 (Signed_or_float cube3))
               = Inr (Finite d)
           \<and> s = pi powr (1 / 3) * (6 * 27) powr (2 / 3) / 54
           \<and> d = 54 / (4 * pi * ((3 * 27 / (4 * pi)) powr (1 / 3))\<^sup>2)
           \<and> s * d = 1)"
proof -
  let ?self = "RadiomicsShape_init (1, 1, 1) 3 3 (Signed_or_float cube3)"
  have V: "0 < Volume ?self" by (simp add: cube3_Volume)
  have A: "0 < SurfaceArea ?self" by (simp add: cube3_SurfaceArea)
  from sphericity_times_disproportion[OF V A] V A show ?thesis
    by (simp only: cube3_Volume cube3_SurfaceArea)
qed

section \<open>The empty region\<close>



lemma all_zero_set: "all_zero a \<longleftrightarrow> (\<forall>p\<in>set a. \<forall>r\<in>set p. \<forall>v\<in>set r. v = 0)"
  by (simp add: all_zero_def list_all_iff)

lemma set_where3:
  "set (where3 a) = {(k, j, i). k < length a \<and> j < length (a ! k) \<and> i < length (a ! k ! j)
                        \<and> a ! k ! j ! i \<noteq> 0}"
proof (rule set_eqI)
  fix c :: "nat \<times> nat \<times> nat"
  obtain k j i where c: "c = (k, j, i)" by (cases c) auto
  have "c \<in> set (where3 a) \<longleftrightarrow>
      (\<exists>p. (k, p) \<in> set (enumerate 0 a) \<and>
        (\<exists>r. (j, r) \<in> set (enumerate 0 p) \<and> (\<exists>v. (i, v) \<in> set (enumerate 0 r) \<and> v \<noteq> 0)))"
    unfolding where3_def c by (simp add: image_iff Bex_def) blast
  also have "\<dots> \<longleftrightarrow> k < length a \<and> j < length (a ! k) \<and> i < length (a ! k ! j)
                        \<and> a ! k ! j ! i \<noteq> 0"
    by (simp add: in_set_enumerate_eq)
  finally show "c \<in> set (where3 a) \<longleftrightarrow> c \<in> {(k, j, i). k < length a \<and> j < length (a ! k) \<and> i < length (a ! k ! j)
                        \<and> a ! k ! j ! i \<noteq> 0}"
    by (simp add: c)
qed

lemma where3_all_zero: "all_zero a \<Longrightarrow> where3 a = []"
proof -
  assume z: "all_zero a"
  have "set (where3 a) = {}"
    unfolding set_where3 using z[unfolded all_zero_set] by (auto dest: nth_mem)
  then show ?thesis by simp
qed

lemma map2_all:
  assumes "\<forall>x\<in>set xs. P x" "\<forall>y\<in>set ys. Q y" "\<And>x y. P x \<Longrightarrow> Q y \<Longrightarrow> R (f x y)"
  shows "\<forall>z\<in>set (map2 f xs ys). R z"
proof
  fix z assume "z \<in> set (map2 f xs ys)"
  then obtain x y where xy: "(x, y) \<in> set (zip xs ys)" and z: "z = f x y" by auto
  from xy have "x \<in> set xs" "y \<in> set ys" by (auto dest: set_zip_leftD set_zip_rightD)
  with assms z show "R z" by blast
qed


lemma all_zero_pad: "all_zero m \<Longrightarrow> all_zero (ConstantPadImageFilter H W m)"
  by (auto simp: all_zero_set ConstantPadImageFilter_def pad_plane_def pad_row_def)

lemma in_set_tl: "x \<in> set (tl xs) \<Longrightarrow> x \<in> set xs"
  by (cases xs) simp_all

lemma all_zero_slices:
  assumes "all_zero a"
  shows "all_zero (slice_x_from1 a)" "all_zero (slice_x_to_last a)"
    "all_zero (slice_y_from1 a)" "all_zero (slice_y_to_last a)"
    "all_zero (slice_z_from1 a)" "all_zero (slice_z_to_last a)"
  using assms
  by (auto simp: all_zero_set slice_x_from1_def slice_x_to_last_def slice_y_from1_def
      slice_y_to_last_def slice_z_from1_def slice_z_to_last_def
      dest!: in_set_tl in_set_butlastD)

lemma sum_list_zero:
  fixes f :: "'a \<Rightarrow> int"
  shows "(\<And>x. x \<in> set xs \<Longrightarrow> f x = 0) \<Longrightarrow> (\<Sum>x\<leftarrow>xs. f x) = 0"
  by (induction xs) simp_all

lemma sum_list_all_zero: "(\<And>v. v \<in> set r \<Longrightarrow> v = 0) \<Longrightarrow> sum_list r = (0::int)"
  by (induction r) simp_all

lemma np_sum_abs_subtract_zero:
  assumes "all_zero a" "all_zero b"
  shows "np_sum (np_abs (np_subtract a b)) = 0"
proof -
  let ?Z1 = "\<lambda>r::int list. \<forall>v\<in>set r. v = 0"
  let ?Z2 = "\<lambda>p::int list list. \<forall>r\<in>set p. ?Z1 r"
  have row: "?Z1 (map2 (\<lambda>u v. u - v) r r')" if "?Z1 r" "?Z1 r'" for r r'
    by (rule map2_all[where P="\<lambda>v. v = 0" and Q="\<lambda>v. v = 0"]) (use that in simp_all)
  have plane: "?Z2 (map2 (map2 (\<lambda>u v. u - v)) p p')" if "?Z2 p" "?Z2 p'" for p p'
    by (rule map2_all[where P="?Z1" and Q="?Z1"]) (use that row in blast)+
  have "\<forall>p\<in>set (np_subtract a b). ?Z2 p"
    unfolding np_subtract_def
    by (rule map2_all[where P="?Z2" and Q="?Z2"])
       (use assms[unfolded all_zero_set] plane in blast)+
  then have "\<forall>p\<in>set (np_abs (np_subtract a b)). \<forall>r\<in>set p. \<forall>v\<in>set r. v = 0"
    unfolding np_abs_def by simp
  then show ?thesis
    unfolding np_sum_def by (intro sum_list_zero sum_list_all_zero) simp_all
qed

lemma surf_all_zero:
  "all_zero a \<Longrightarrow> surf_x a = 0" "all_zero a \<Longrightarrow> surf_y a = 0" "all_zero a \<Longrightarrow> surf_z a = 0"
  by (simp_all add: surf_x_def surf_y_def surf_z_def np_sum_abs_subtract_zero all_zero_slices)

lemma init_Volume_mask:
  "Volume (RadiomicsShape_init (x, y, z) H W img)
     = real (length (mask_where3 (cpif_Execute H W img))) * (x * y * z)"
  by (simp add: RadiomicsShape_init_def Let_def getVolumeFeatureValue_def)

lemma init_SurfaceArea_mask:
  "SurfaceArea (RadiomicsShape_init (x, y, z) H W img) =
     of_int (mask_surf_x (cpif_Execute H W img)) * (y * z)
   + of_int (mask_surf_y (cpif_Execute H W img)) * (x * z)
   + of_int (mask_surf_z (cpif_Execute H W img)) * (x * y)"
  by (simp add: RadiomicsShape_init_def Let_def getSurfaceAreaFeatureValue_def)

lemma all_zero_subtract:
  fixes a b :: "'a::group_add array3"
  assumes "all_zero a" "all_zero b"
  shows "all_zero (np_subtract a b)"
proof -
  let ?Z1 = "\<lambda>r::'a list. \<forall>v\<in>set r. v = 0"
  let ?Z2 = "\<lambda>p::'a list list. \<forall>r\<in>set p. ?Z1 r"
  have row: "?Z1 (map2 (\<lambda>u v. u - v) r r')" if "?Z1 r" "?Z1 r'" for r r'
    by (rule map2_all[where P="\<lambda>v. v = 0" and Q="\<lambda>v. v = 0"]) (use that in simp_all)
  have plane: "?Z2 (map2 (map2 (\<lambda>u v. u - v)) p p')" if "?Z2 p" "?Z2 p'" for p p'
    by (rule map2_all[where P="?Z1" and Q="?Z1"]) (use that row in blast)+
  have "\<forall>p\<in>set (np_subtract a b). ?Z2 p"
    unfolding np_subtract_def
    by (rule map2_all[where P="?Z2" and Q="?Z2"])
       (use assms[unfolded all_zero_set] plane in blast)+
  then show ?thesis by (simp only: all_zero_set)
qed

lemma sum_list_zero_nat:
  fixes f :: "'a \<Rightarrow> nat"
  shows "(\<And>x. x \<in> set xs \<Longrightarrow> f x = 0) \<Longrightarrow> (\<Sum>x\<leftarrow>xs. f x) = 0"
  by (induction xs) simp_all

lemma np_sum_uint_zero:
  fixes a :: "'a::len word array3"
  assumes "all_zero a"
  shows "np_sum_uint a = 0"
proof -
  have z: "v = 0" if "p \<in> set a" "r \<in> set p" "v \<in> set r" for p r v
    using assms[unfolded all_zero_set] that by blast
  have S: "(\<Sum>p\<leftarrow>a. \<Sum>r\<leftarrow>p. \<Sum>v\<leftarrow>r. unat v) = (0::nat)"
  proof (intro sum_list_zero_nat)
    fix p r v assume "p \<in> set a" "r \<in> set p" "v \<in> set r"
    then have "v = 0" by (rule z)
    then show "unat v = 0" by simp
  qed
  show ?thesis unfolding np_sum_uint_def S by simp
qed

lemma surf_uint_all_zero:
  fixes a :: "'a::len word array3"
  assumes "all_zero a"
  shows "surf_x_uint a = 0" "surf_y_uint a = 0" "surf_z_uint a = 0"
  using assms
  by (simp_all add: surf_x_uint_def surf_y_uint_def surf_z_uint_def np_sum_uint_zero
      all_zero_subtract all_zero_slices)

lemma mask_where3_zero:
  "mask_all_zero img \<Longrightarrow> mask_where3 (cpif_Execute H W img) = []"
  by (cases img)
     (simp_all add: mask_all_zero_def mask_where3_def cpif_Execute_def where3_all_zero
        all_zero_pad)

lemma mask_surf_zero:
  assumes "mask_all_zero img"
  shows "mask_surf_x (cpif_Execute H W img) = 0"
    and "mask_surf_y (cpif_Execute H W img) = 0"
    and "mask_surf_z (cpif_Execute H W img) = 0"
  using assms
  by (cases img;
      simp add: mask_all_zero_def mask_surf_x_def mask_surf_y_def mask_surf_z_def
        cpif_Execute_def surf_all_zero surf_uint_all_zero all_zero_pad)+

lemma empty_mask_Volume: "mask_all_zero img \<Longrightarrow> Volume (RadiomicsShape_init s H W img) = 0"
  by (cases s) (simp add: init_Volume_mask mask_where3_zero)

lemma empty_mask_SurfaceArea:
  "mask_all_zero img \<Longrightarrow> SurfaceArea (RadiomicsShape_init s H W img) = 0"
  by (cases s) (simp add: init_SurfaceArea_mask mask_surf_zero)

text \<open>
  C7. For a mask with no true voxel, of any pixel type, the volume is 0, and the surface
  to volume ratio, Compactness1, Compactness2, spherical disproportion and sphericity each
  return NaN: a value, not an exception.
\<close>

theorem empty_roi_descriptors_nan:
  assumes "mask_all_zero img"
  shows "Volume (RadiomicsShape_init s H W img) = 0
       \<and> getSurfaceVolumeRatioFeatureValue (RadiomicsShape_init s H W img) = Inr NaN
       \<and> getCompactness1FeatureValue (RadiomicsShape_init s H W img) = Inr NaN
       \<and> getCompactness2FeatureValue (RadiomicsShape_init s H W img) = Inr NaN
       \<and> getSphericalDisproportionFeatureValue (RadiomicsShape_init s H W img) = Inr NaN
       \<and> getSphericityFeatureValue (RadiomicsShape_init s H W img) = Inr NaN"
proof -
  note VA = empty_mask_Volume[OF assms, of s H W] empty_mask_SurfaceArea[OF assms, of s H W]
  have "getSurfaceVolumeRatioFeatureValue (RadiomicsShape_init s H W img) = Inr NaN"
    by (simp add: getSurfaceVolumeRatioFeatureValue_def VA)
  moreover have "getCompactness1FeatureValue (RadiomicsShape_init s H W img) = Inr NaN"
    by (simp add: getCompactness1FeatureValue_def VA np_power_def)
  moreover have "getCompactness2FeatureValue (RadiomicsShape_init s H W img) = Inr NaN"
    by (simp add: getCompactness2FeatureValue_def VA np_power_def py_pow_def)
  moreover have "getSphericalDisproportionFeatureValue (RadiomicsShape_init s H W img) = Inr NaN"
    by (simp add: getSphericalDisproportionFeatureValue_def VA py_div_def py_pow_def)
  moreover have "getSphericityFeatureValue (RadiomicsShape_init s H W img) = Inr NaN"
    by (simp add: getSphericityFeatureValue_def VA py_pow_def)
  ultimately show ?thesis using VA(1) by simp
qed


theorem empty_roi_descriptors_nan_witness:
  "mask_all_zero (Signed_or_float [[[0, 0]]])
   \<and> Volume (RadiomicsShape_init (1, 1, 1) 1 2 (Signed_or_float [[[0, 0]]])) = 0
   \<and> getSurfaceVolumeRatioFeatureValue
         (RadiomicsShape_init (1, 1, 1) 1 2 (Signed_or_float [[[0, 0]]])) = Inr NaN
   \<and> getCompactness1FeatureValue
         (RadiomicsShape_init (1, 1, 1) 1 2 (Signed_or_float [[[0, 0]]])) = Inr NaN
   \<and> getCompactness2FeatureValue
         (RadiomicsShape_init (1, 1, 1) 1 2 (Signed_or_float [[[0, 0]]])) = Inr NaN
   \<and> getSphericalDisproportionFeatureValue
         (RadiomicsShape_init (1, 1, 1) 1 2 (Signed_or_float [[[0, 0]]])) = Inr NaN
   \<and> getSphericityFeatureValue
         (RadiomicsShape_init (1, 1, 1) 1 2 (Signed_or_float [[[0, 0]]])) = Inr NaN
   \<and> mask_all_zero (UInt8 [[[0, 0]]])
   \<and> Volume (RadiomicsShape_init (1, 1, 1) 1 2 (UInt8 [[[0, 0]]])) = 0
   \<and> getSurfaceVolumeRatioFeatureValue
         (RadiomicsShape_init (1, 1, 1) 1 2 (UInt8 [[[0, 0]]])) = Inr NaN
   \<and> getCompactness1FeatureValue
         (RadiomicsShape_init (1, 1, 1) 1 2 (UInt8 [[[0, 0]]])) = Inr NaN
   \<and> getCompactness2FeatureValue
         (RadiomicsShape_init (1, 1, 1) 1 2 (UInt8 [[[0, 0]]])) = Inr NaN
   \<and> getSphericalDisproportionFeatureValue
         (RadiomicsShape_init (1, 1, 1) 1 2 (UInt8 [[[0, 0]]])) = Inr NaN
   \<and> getSphericityFeatureValue
         (RadiomicsShape_init (1, 1, 1) 1 2 (UInt8 [[[0, 0]]])) = Inr NaN"
proof -
  have z: "mask_all_zero (Signed_or_float [[[0, 0]]])"
    by (simp add: mask_all_zero_def all_zero_def)
  have z8: "mask_all_zero (UInt8 [[[0, 0]]])"
    by (simp add: mask_all_zero_def all_zero_def)
  from empty_roi_descriptors_nan[OF z, of "(1, 1, 1)" 1 2]
    empty_roi_descriptors_nan[OF z8, of "(1, 1, 1)" 1 2] z z8
  show ?thesis by (intro conjI) simp_all
qed


section \<open>The padded mask\<close>


lemma wrap_nth:
  "i \<le> Suc (length xs) \<Longrightarrow>
   (x # xs @ [y]) ! i = (if i = 0 then x else if i \<le> length xs then xs ! (i - 1) else y)"
  by (cases i) (auto simp: nth_append)

lemma has_shape_pad:
  assumes "has_shape m D H W"
  shows "has_shape (ConstantPadImageFilter H W m) (D + 2) (H + 2) (W + 2)"
  using assms
  by (auto simp: has_shape_def ConstantPadImageFilter_def pad_plane_def pad_row_def list_all_iff)

lemma pad_nth:
  assumes sh: "has_shape m D H W" and k: "k < D + 2" and j: "j < H + 2" and i: "i < W + 2"
  shows "ConstantPadImageFilter H W m ! k ! j ! i =
     (if k = 0 \<or> k = D + 1 \<or> j = 0 \<or> j = H + 1 \<or> i = 0 \<or> i = W + 1 then 0
      else m ! (k - 1) ! (j - 1) ! (i - 1))"
proof -
  have lm: "length m = D" using sh by (rule has_shape_length)
  have plane: "ConstantPadImageFilter H W m ! k =
      (if k = 0 \<or> k = D + 1 then replicate (H + 2) (replicate (W + 2) 0)
       else pad_plane W (m ! (k - 1)))"
    using k lm unfolding ConstantPadImageFilter_def by (subst wrap_nth) auto
  show ?thesis
  proof (cases "k = 0 \<or> k = D + 1")
    case True
    have "ConstantPadImageFilter H W m ! k = replicate (H + 2) (replicate (W + 2) 0)"
      by (simp only: plane True if_True)
    then have "ConstantPadImageFilter H W m ! k ! j ! i = 0"
      using j i by (simp only: nth_replicate)
    then show ?thesis using True by auto
  next
    case False
    then have k1: "k - 1 < D" using k by auto
    have lp: "length (m ! (k - 1)) = H" using has_shape_nth(1)[OF sh k1] .
    have row: "pad_plane W (m ! (k - 1)) ! j =
      (if j = 0 \<or> j = H + 1 then replicate (W + 2) 0 else pad_row (m ! (k - 1) ! (j - 1)))"
      using j lp unfolding pad_plane_def by (subst wrap_nth) auto
    show ?thesis
    proof (cases "j = 0 \<or> j = H + 1")
      case True
      have "ConstantPadImageFilter H W m ! k ! j = replicate (W + 2) 0"
        by (simp only: plane False if_False row True if_True)
      then have "ConstantPadImageFilter H W m ! k ! j ! i = 0"
        using i by (simp only: nth_replicate)
      then show ?thesis using True by auto
    next
      case jF: False
      then have j1: "j - 1 < H" using j by auto
      have lr: "length (m ! (k - 1) ! (j - 1)) = W" using has_shape_nth(2)[OF sh k1 j1] .
      have "pad_row (m ! (k - 1) ! (j - 1)) ! i =
        (if i = 0 \<or> i = W + 1 then 0 else m ! (k - 1) ! (j - 1) ! (i - 1))"
        using i lr unfolding pad_row_def by (subst wrap_nth) auto
      moreover have "ConstantPadImageFilter H W m ! k ! j = pad_row (m ! (k - 1) ! (j - 1))"
        by (simp only: plane False if_False row jF)
      ultimately show ?thesis using False jF by simp
    qed
  qed
qed


lemma has_shape_slices:
  assumes "has_shape a D H W"
  shows "has_shape (slice_x_from1 a) D H (W - 1)" "has_shape (slice_x_to_last a) D H (W - 1)"
    "has_shape (slice_y_from1 a) D (H - 1) W" "has_shape (slice_y_to_last a) D (H - 1) W"
    "has_shape (slice_z_from1 a) (D - 1) H W" "has_shape (slice_z_to_last a) (D - 1) H W"
  using assms
  by (auto simp: has_shape_def list_all_iff slice_x_from1_def slice_x_to_last_def
      slice_y_from1_def slice_y_to_last_def slice_z_from1_def slice_z_to_last_def
      dest: in_set_tl in_set_butlastD)

lemma slice_x_nth:
  assumes "has_shape a D H W" "k < D" "j < H" "i < W - 1"
  shows "slice_x_from1 a ! k ! j ! i = a ! k ! j ! Suc i"
    and "slice_x_to_last a ! k ! j ! i = a ! k ! j ! i"
  using assms has_shape_length[OF assms(1)] has_shape_nth[OF assms(1)]
  by (simp_all add: slice_x_from1_def slice_x_to_last_def nth_tl nth_butlast)

lemma slice_y_nth:
  assumes "has_shape a D H W" "k < D" "j < H - 1"
  shows "slice_y_from1 a ! k ! j = a ! k ! Suc j"
    and "slice_y_to_last a ! k ! j = a ! k ! j"
  using assms has_shape_length[OF assms(1)] has_shape_nth[OF assms(1)]
  by (simp_all add: slice_y_from1_def slice_y_to_last_def nth_tl nth_butlast)

lemma slice_z_nth:
  assumes "has_shape a D H W" "k < D - 1"
  shows "slice_z_from1 a ! k = a ! Suc k"
    and "slice_z_to_last a ! k = a ! k"
  using assms has_shape_length[OF assms(1)]
  by (simp_all add: slice_z_from1_def slice_z_to_last_def nth_tl nth_butlast)

lemma init_mask_array:
  "maskArray (RadiomicsShape_init s H W (Signed_or_float mi))
     = Signed_or_float (ConstantPadImageFilter H W mi)"
  "maskArray (RadiomicsShape_init s H W (UInt8 m8)) = UInt8 (ConstantPadImageFilter H W m8)"
  "maskArray (RadiomicsShape_init s H W (UInt16 m16)) = UInt16 (ConstantPadImageFilter H W m16)"
  "maskArray (RadiomicsShape_init s H W (UInt32 m32)) = UInt32 (ConstantPadImageFilter H W m32)"
  "maskArray (RadiomicsShape_init s H W (UInt64 m64)) = UInt64 (ConstantPadImageFilter H W m64)"
  by (simp_all add: RadiomicsShape_init_def Let_def cpif_Execute_def)

text \<open>
  C8. For an input mask of shape \<open>(D, H, W)\<close>, of any pixel type, the mask array of the
  constructed object is the padded mask: it has shape \<open>(D + 2, H + 2, W + 2)\<close>, is 0 on the one-voxel shell of
  every face and is the input inside. Along each axis the two slices that
  \<open>getSurfaceAreaFeatureValue\<close> subtracts have the axis length minus one entries, entry
  \<open>i\<close> of the one being entry \<open>i + 1\<close> of the array and entry \<open>i\<close> of the other being
  entry \<open>i\<close>, and \<open>i + 1\<close> is below the axis length.
\<close>

theorem padded_mask_shape_and_shell:
  fixes m :: "'a::zero array3"
  assumes "has_shape m D H W"
  shows "maskArray (RadiomicsShape_init s H W (Signed_or_float mi))
       = Signed_or_float (ConstantPadImageFilter H W mi)
     \<and> maskArray (RadiomicsShape_init s H W (UInt8 m8))
       = UInt8 (ConstantPadImageFilter H W m8)
     \<and> maskArray (RadiomicsShape_init s H W (UInt16 m16))
       = UInt16 (ConstantPadImageFilter H W m16)
     \<and> maskArray (RadiomicsShape_init s H W (UInt32 m32))
       = UInt32 (ConstantPadImageFilter H W m32)
     \<and> maskArray (RadiomicsShape_init s H W (UInt64 m64))
       = UInt64 (ConstantPadImageFilter H W m64)
     \<and> has_shape (ConstantPadImageFilter H W m) (D + 2) (H + 2) (W + 2)
     \<and> (\<forall>k<D + 2. \<forall>j<H + 2. \<forall>i<W + 2.
           k = 0 \<or> k = D + 1 \<or> j = 0 \<or> j = H + 1 \<or> i = 0 \<or> i = W + 1
             \<longrightarrow> ConstantPadImageFilter H W m ! k ! j ! i = 0)
     \<and> (\<forall>k<D. \<forall>j<H. \<forall>i<W.
           ConstantPadImageFilter H W m ! Suc k ! Suc j ! Suc i = m ! k ! j ! i)
     \<and> (\<forall>k<D + 2. \<forall>j<H + 2. \<forall>i<W + 1.
           Suc i < length (ConstantPadImageFilter H W m ! k ! j)
         \<and> slice_x_from1 (ConstantPadImageFilter H W m) ! k ! j ! i
             = ConstantPadImageFilter H W m ! k ! j ! Suc i
         \<and> slice_x_to_last (ConstantPadImageFilter H W m) ! k ! j ! i
             = ConstantPadImageFilter H W m ! k ! j ! i)
     \<and> (\<forall>k<D + 2. \<forall>j<H + 1.
           Suc j < length (ConstantPadImageFilter H W m ! k)
         \<and> slice_y_from1 (ConstantPadImageFilter H W m) ! k ! j
             = ConstantPadImageFilter H W m ! k ! Suc j
         \<and> slice_y_to_last (ConstantPadImageFilter H W m) ! k ! j
             = ConstantPadImageFilter H W m ! k ! j)
     \<and> (\<forall>k<D + 1.
           Suc k < length (ConstantPadImageFilter H W m)
         \<and> slice_z_from1 (ConstantPadImageFilter H W m) ! k
             = ConstantPadImageFilter H W m ! Suc k
         \<and> slice_z_to_last (ConstantPadImageFilter H W m) ! k
             = ConstantPadImageFilter H W m ! k)"
proof -
  let ?a = "ConstantPadImageFilter H W m"
  note sh = has_shape_pad[OF assms]
  have 1: "maskArray (RadiomicsShape_init s H W (Signed_or_float mi))
       = Signed_or_float (ConstantPadImageFilter H W mi)"
    by (simp add: init_mask_array)
  have u: "maskArray (RadiomicsShape_init s H W (UInt8 m8))
       = UInt8 (ConstantPadImageFilter H W m8)"
    "maskArray (RadiomicsShape_init s H W (UInt16 m16))
       = UInt16 (ConstantPadImageFilter H W m16)"
    "maskArray (RadiomicsShape_init s H W (UInt32 m32))
       = UInt32 (ConstantPadImageFilter H W m32)"
    "maskArray (RadiomicsShape_init s H W (UInt64 m64))
       = UInt64 (ConstantPadImageFilter H W m64)"
    by (simp_all add: init_mask_array)
  have 3: "\<forall>k<D + 2. \<forall>j<H + 2. \<forall>i<W + 2.
           k = 0 \<or> k = D + 1 \<or> j = 0 \<or> j = H + 1 \<or> i = 0 \<or> i = W + 1 \<longrightarrow> ?a ! k ! j ! i = 0"
    by (simp add: pad_nth[OF assms])
  have 4: "\<forall>k<D. \<forall>j<H. \<forall>i<W. ?a ! Suc k ! Suc j ! Suc i = m ! k ! j ! i"
    by (simp add: pad_nth[OF assms])
  have 5: "\<forall>k<D + 2. \<forall>j<H + 2. \<forall>i<W + 1.
           Suc i < length (?a ! k ! j)
         \<and> slice_x_from1 ?a ! k ! j ! i = ?a ! k ! j ! Suc i
         \<and> slice_x_to_last ?a ! k ! j ! i = ?a ! k ! j ! i"
    using slice_x_nth[OF sh] has_shape_nth(2)[OF sh] by simp
  have 6: "\<forall>k<D + 2. \<forall>j<H + 1.
           Suc j < length (?a ! k)
         \<and> slice_y_from1 ?a ! k ! j = ?a ! k ! Suc j
         \<and> slice_y_to_last ?a ! k ! j = ?a ! k ! j"
    using slice_y_nth[OF sh] has_shape_nth(1)[OF sh] by simp
  have 7: "\<forall>k<D + 1.
           Suc k < length ?a
         \<and> slice_z_from1 ?a ! k = ?a ! Suc k
         \<and> slice_z_to_last ?a ! k = ?a ! k"
    using slice_z_nth[OF sh] has_shape_length[OF sh] by simp
  from 1 u sh 3 4 5 6 7 show ?thesis by (intro conjI)
qed


theorem padded_mask_shape_and_shell_witness:
  "has_shape [[[1::int]]] 1 1 1
   \<and> maskArray (RadiomicsShape_init (1, 1, 1) 1 1 (Signed_or_float [[[1]]]))
       = Signed_or_float (ConstantPadImageFilter 1 1 [[[1::int]]])
   \<and> maskArray (RadiomicsShape_init (1, 1, 1) 1 1 (UInt8 [[[1]]]))
       = UInt8 (ConstantPadImageFilter 1 1 [[[1]]])
   \<and> has_shape (ConstantPadImageFilter 1 1 [[[1::int]]]) 3 3 3
   \<and> ConstantPadImageFilter 1 1 [[[1::int]]] ! 0 ! 1 ! 1 = 0
   \<and> ConstantPadImageFilter 1 1 [[[1::int]]] ! 1 ! 1 ! 1 = 1
   \<and> slice_x_from1 (ConstantPadImageFilter 1 1 [[[1::int]]]) ! 1 ! 1 ! 0
       = ConstantPadImageFilter 1 1 [[[1::int]]] ! 1 ! 1 ! 1"
proof -
  let ?a = "ConstantPadImageFilter 1 1 [[[1::int]]]"
  have h: "has_shape [[[1::int]]] 1 1 1" by (simp add: has_shape_def)
  note t = padded_mask_shape_and_shell[OF h, of "(1, 1, 1)" "[[[1]]]" "[[[1]]]"]
  note t1 = t[THEN conjunct1]
    and t8 = t[THEN conjunct2, THEN conjunct1]
    and r = t[THEN conjunct2, THEN conjunct2, THEN conjunct2, THEN conjunct2, THEN conjunct2]
  note t2 = r[THEN conjunct1]
    and t3 = r[THEN conjunct2, THEN conjunct1]
    and t4 = r[THEN conjunct2, THEN conjunct2, THEN conjunct1]
    and t5 = r[THEN conjunct2, THEN conjunct2, THEN conjunct2, THEN conjunct1]
  from t2 have 2: "has_shape ?a 3 3 3"
    by (simp add: numeral_3_eq_3)
  from t3[rule_format, of 0 1 1] have 3: "?a ! 0 ! 1 ! 1 = 0"
    by simp
  from t4[rule_format, of 0 0 0] have 4: "?a ! 1 ! 1 ! 1 = 1"
    by simp
  from t5[rule_format, of 1 1 0] have 5: "slice_x_from1 ?a ! 1 ! 1 ! 0 = ?a ! 1 ! 1 ! 1"
    by simp
  from h t1 t8 2 3 4 5 show ?thesis by (intro conjI)
qed

section \<open>Permuting the voxels\<close>


lemma length_filter_enumerate:
  "length (filter (\<lambda>(i, v). P v) (enumerate n r)) = length (filter P r)"
  by (induction r arbitrary: n) simp_all

lemma length_filter_enumerate_snd:
  "length (filter (\<lambda>p. P (snd p)) (enumerate n r)) = length (filter P r)"
  by (induction r arbitrary: n) simp_all

lemma map_snd_enumerate_comp: "map (\<lambda>(j, r). F r) (enumerate n p) = map F p"
  by (induction p arbitrary: n) simp_all

lemma sum_list_concat_map:
  fixes f :: "'a \<Rightarrow> nat"
  shows "(\<Sum>x\<leftarrow>concat xs. f x) = (\<Sum>p\<leftarrow>xs. \<Sum>x\<leftarrow>p. f x)"
  by (induction xs) simp_all

lemma length_where3:
  fixes a :: "'a::zero array3"
  shows "length (where3 a) = length (filter (\<lambda>v. v \<noteq> 0) (concat (concat a)))"
proof -
  have row: "length (map (\<lambda>(i, v). (k, j, i)) (filter (\<lambda>(i, v). v \<noteq> 0) (enumerate 0 r)))
           = length (filter (\<lambda>v. v \<noteq> 0) r)" for k j and r :: "'a list"
    by (simp add: length_filter_enumerate[where P="\<lambda>v. v \<noteq> 0"])
  have plane: "length (concat (map (\<lambda>(j, r).
         map (\<lambda>(i, v). (k, j, i)) (filter (\<lambda>(i, v). v \<noteq> 0) (enumerate 0 r))) (enumerate 0 p)))
       = length (filter (\<lambda>v. v \<noteq> 0) (concat p))" for k and p :: "'a list list"
  proof -
    have "map length (map (\<lambda>(j, r).
         map (\<lambda>(i, v). (k, j, i)) (filter (\<lambda>(i, v). v \<noteq> 0) (enumerate 0 r))) (enumerate 0 p))
       = map (\<lambda>(j, r). length (filter (\<lambda>v. v \<noteq> 0) r)) (enumerate 0 p)"
      by (simp add: length_filter_enumerate_snd[where P="\<lambda>v. v \<noteq> 0"] split_def)
    also have "\<dots> = map (\<lambda>r. length (filter (\<lambda>v. v \<noteq> 0) r)) p"
      by (rule map_snd_enumerate_comp)
    finally show ?thesis
      by (simp add: length_concat filter_concat comp_def)
  qed
  have "map length (map (\<lambda>(k, p). concat (map (\<lambda>(j, r).
         map (\<lambda>(i, v). (k, j, i)) (filter (\<lambda>(i, v). v \<noteq> 0) (enumerate 0 r))) (enumerate 0 p)))
       (enumerate 0 a))
     = map (\<lambda>(k, p). length (filter (\<lambda>v. v \<noteq> 0) (concat p))) (enumerate 0 a)"
    by (simp add: split_def plane[unfolded split_def])
  also have "\<dots> = map (\<lambda>p. length (filter (\<lambda>v. v \<noteq> 0) (concat p))) a"
    by (rule map_snd_enumerate_comp)
  finally show ?thesis
    unfolding where3_def
    by (simp add: length_concat filter_concat comp_def sum_list_concat_map)
qed

lemma filter_pad_row: "filter (\<lambda>v. v \<noteq> 0) (pad_row r) = filter (\<lambda>v. v \<noteq> 0) r"
  by (simp add: pad_row_def)

lemma filter_zero_plane:
  "filter (\<lambda>v. v \<noteq> 0) (concat (replicate n (replicate k 0))) = []"
  by (induction n) simp_all

lemma filter_pad_plane:
  "filter (\<lambda>v. v \<noteq> 0) (concat (pad_plane W p)) = filter (\<lambda>v. v \<noteq> 0) (concat p)"
  unfolding pad_plane_def by (induction p) (simp_all add: filter_pad_row)

lemma filter_pad:
  "filter (\<lambda>v. v \<noteq> 0) (concat (concat (ConstantPadImageFilter H W m)))
     = filter (\<lambda>v. v \<noteq> 0) (concat (concat m))"
  unfolding ConstantPadImageFilter_def
  by (induction m) (simp_all add: filter_pad_plane filter_zero_plane del: replicate_Suc)

lemma Volume_count:
  "Volume (RadiomicsShape_init (x, y, z) H W (Signed_or_float m))
     = real (length (filter (\<lambda>v. v \<noteq> 0) (concat (concat m)))) * (x * y * z)"
  by (simp add: init_Volume length_where3 filter_pad)

lemma filter_uint:
  fixes xs :: "'a::len word list"
  shows "filter ((\<lambda>v. v \<noteq> 0) \<circ> uint) xs = filter (\<lambda>v. v \<noteq> 0) xs"
  by (induction xs) (simp_all add: uint_0_iff)

lemma Volume_count_mask:
  "Volume (RadiomicsShape_init (x, y, z) H W img)
     = real (length (filter (\<lambda>v. v \<noteq> 0) (mask_voxels img))) * (x * y * z)"
  by (cases img)
    (simp_all add: RadiomicsShape_init_def Let_def getVolumeFeatureValue_def cpif_Execute_def
      mask_where3_def mask_voxels_def length_where3 filter_pad filter_uint)

text \<open>
  C9 (amended). For every mask, of any pixel type, and every permutation of its voxels,
  \<open>getVolumeFeatureValue\<close> returns the same value on the permuted mask: the volume
  depends on the number of true voxels only.
\<close>

theorem volume_permutation_invariant:
  assumes "mset (mask_voxels img') = mset (mask_voxels img)"
  shows "getVolumeFeatureValue (RadiomicsShape_init s H W img')
       = getVolumeFeatureValue (RadiomicsShape_init s H W img)"
proof -
  have "mset (filter (\<lambda>v. v \<noteq> 0) (mask_voxels img'))
      = mset (filter (\<lambda>v. v \<noteq> 0) (mask_voxels img))"
    using assms by simp
  then have "length (filter (\<lambda>v. v \<noteq> 0) (mask_voxels img'))
           = length (filter (\<lambda>v. v \<noteq> 0) (mask_voxels img))"
    by (rule mset_eq_length)
  then show ?thesis
    by (cases s) (simp add: getVolume_init Volume_count_mask)
qed

theorem volume_permutation_invariant_witness:
  "mset (concat (concat [[[1, 0, 1]]])) = mset (concat (concat [[[1, 1, 0::int]]]))
   \<and> getVolumeFeatureValue (RadiomicsShape_init (1, 1, 1) 1 3 (Signed_or_float [[[1, 0, 1]]]))
       = getVolumeFeatureValue (RadiomicsShape_init (1, 1, 1) 1 3 (Signed_or_float [[[1, 1, 0]]]))
   \<and> mset (mask_voxels (UInt8 [[[1, 0, 1]]])) = mset (mask_voxels (UInt8 [[[1, 1, 0]]]))
   \<and> getVolumeFeatureValue (RadiomicsShape_init (1, 1, 1) 1 3 (UInt8 [[[1, 0, 1]]]))
       = getVolumeFeatureValue (RadiomicsShape_init (1, 1, 1) 1 3 (UInt8 [[[1, 1, 0]]]))"
proof -
  have p: "mset (concat (concat [[[1, 0, 1]]])) = mset (concat (concat [[[1, 1, 0::int]]]))"
    by simp
  have q: "mset (mask_voxels (Signed_or_float [[[1, 0, 1]]]))
         = mset (mask_voxels (Signed_or_float [[[1, 1, 0]]]))"
    by (simp add: mask_voxels_def)
  have r: "mset (mask_voxels (UInt8 [[[1, 0, 1]]])) = mset (mask_voxels (UInt8 [[[1, 1, 0]]]))"
    by (simp add: mask_voxels_def)
  from volume_permutation_invariant[OF q] volume_permutation_invariant[OF r] p r
  show ?thesis by (intro conjI)
qed

text \<open>
  C9 as stated fails for the surface area, which depends on which voxels are adjacent:
  the masks \<open>[1, 0, 1]\<close> and \<open>[1, 1, 0]\<close> of shape \<open>(1, 1, 3)\<close> hold the same voxels in a
  different order, and their surface areas are 12 and 10.
\<close>

theorem surface_area_not_permutation_invariant:
  "has_shape [[[1, 0, 1::int]]] 1 1 3 \<and> has_shape [[[1, 1, 0::int]]] 1 1 3
   \<and> mset (concat (concat [[[1, 0, 1]]])) = mset (concat (concat [[[1, 1, 0::int]]]))
   \<and> getSurfaceAreaFeatureValue (RadiomicsShape_init (1, 1, 1) 1 3 (Signed_or_float [[[1, 0, 1]]])) = 12
   \<and> getSurfaceAreaFeatureValue (RadiomicsShape_init (1, 1, 1) 1 3 (Signed_or_float [[[1, 1, 0]]])) = 10
   \<and> getSurfaceAreaFeatureValue (RadiomicsShape_init (1, 1, 1) 1 3 (Signed_or_float [[[1, 0, 1]]]))
       \<noteq> getSurfaceAreaFeatureValue (RadiomicsShape_init (1, 1, 1) 1 3 (Signed_or_float [[[1, 1, 0]]]))"
  by (simp add: has_shape_def getSurfaceArea_init init_SurfaceArea
      ConstantPadImageFilter_def pad_plane_def pad_row_def numeral_eq_Suc
      surf_x_def surf_y_def surf_z_def np_sum_def np_abs_def
      np_subtract_def slice_x_from1_def slice_x_to_last_def slice_y_from1_def
      slice_y_to_last_def slice_z_from1_def slice_z_to_last_def)

section \<open>Maximum 3D diameter\<close>

lemma np_amax_Max: "xs \<noteq> [] \<Longrightarrow> np_amax xs = Inr (Max (set xs))"
proof (cases xs)
  case (Cons v rest)
  show ?thesis unfolding Cons np_amax_def by (simp only: list.case Max.set_eq_fold)
qed simp

lemma np_amin_Min: "xs \<noteq> [] \<Longrightarrow> np_amin xs = Inr (Min (set xs))"
proof (cases xs)
  case (Cons v rest)
  show ?thesis unfolding Cons np_amin_def by (simp only: list.case Min.set_eq_fold)
qed simp

lemma finite_candidates: "finite (candidate_distances edgeMin edgeMax)"
  by (simp add: candidate_distances_def)

lemma candidate_distances_iff:
  "y \<in> candidate_distances edgeMin edgeMax
     \<longleftrightarrow> (\<exists>v1\<in>set edgeMax. \<exists>v2\<in>set edgeMin. y = voxel_distance v2 v1)"
  by (auto simp: candidate_distances_def)

lemma candidates_Cons:
  "candidate_distances edgeMin (v1 # rest)
     = (\<lambda>v2. voxel_distance v2 v1) ` set edgeMin \<union> candidate_distances edgeMin rest"
  by (auto simp: candidate_distances_def)

lemma diameter_loop_Max:
  assumes "edgeMin \<noteq> []"
  shows "diameter_loop edgeMin edgeMax d
       = Inr (Max (insert d (candidate_distances edgeMin edgeMax)))"
proof (induction edgeMax arbitrary: d)
  case Nil
  show ?case by (simp add: candidate_distances_def)
next
  case (Cons v1 rest)
  let ?D1 = "(\<lambda>v2. voxel_distance v2 v1) ` set edgeMin"
  let ?Dr = "candidate_distances edgeMin rest"
  let ?mx = "Max ?D1"
  have fin: "finite ?D1" "finite ?Dr" "?D1 \<noteq> {}"
    using assms by (simp_all add: finite_candidates)
  have amax: "np_amax (map (\<lambda>v2. voxel_distance v2 v1) edgeMin) = Inr ?mx"
    using assms by (simp add: np_amax_Max)
  have upd: "(if ?mx > d then ?mx else d) = max d ?mx"
    by (simp add: max_def)
  have "diameter_loop edgeMin (v1 # rest) d = Inr (Max (insert (max d ?mx) ?Dr))"
    by (simp add: amax then_do_def upd Cons.IH del: Max_insert)
  also have "Max (insert (max d ?mx) ?Dr) = Max (insert d (?D1 \<union> ?Dr))"
  proof (rule Max_eqI[symmetric])
    show "finite (insert d (?D1 \<union> ?Dr))" using fin by simp
    have in': "Max (insert (max d ?mx) ?Dr) \<in> insert (max d ?mx) ?Dr"
      by (rule Max_in) (use fin in simp_all)
    have "?mx \<in> ?D1" by (rule Max_in) (use fin in simp_all)
    then show "Max (insert (max d ?mx) ?Dr) \<in> insert d (?D1 \<union> ?Dr)"
      using in' by (auto simp: max_def split: if_splits)
    fix y assume y: "y \<in> insert d (?D1 \<union> ?Dr)"
    have ge: "max d ?mx \<le> Max (insert (max d ?mx) ?Dr)"
      by (rule Max_ge) (use fin in simp_all)
    from y consider "y = d" | "y \<in> ?D1" | "y \<in> ?Dr" by auto
    then show "y \<le> Max (insert (max d ?mx) ?Dr)"
    proof cases
      case 1 then show ?thesis using ge by simp
    next
      case 2
      then have "y \<le> ?mx" using fin by simp
      then show ?thesis using ge by simp
    next
      case 3
      then show ?thesis by (intro Max_ge) (use fin in simp_all)
    qed
  qed
  finally show ?case by (simp only: candidates_Cons)
qed


lemma edge_voxels_nonempty:
  assumes "b0 \<in> fst ` set a"
  shows "edge_voxels a (b0, b1, b2) \<noteq> []"
proof -
  from assms obtain c where "c \<in> set a" "fst c = b0" by auto
  then have "filter (\<lambda>(k, j, i). k = b0) a \<noteq> []"
    by (auto simp: filter_empty_conv split_def)
  then show ?thesis by (simp add: edge_voxels_def)
qed

lemma edge_min_nonempty:
  assumes "c0 \<noteq> []" "length c1 = length c0" "length c2 = length c0"
  shows "edge_min_coords spacing (c0, c1, c2) \<noteq> []"
proof -
  have "map fst (zip c0 (zip c1 c2)) = c0" using assms by (simp add: map_fst_zip)
  then have "fst ` set (zip c0 (zip c1 c2)) = set c0" by (metis set_map)
  moreover have "Min (set c0) \<in> set c0" using assms(1) by simp
  ultimately show ?thesis
    by (simp add: edge_min_coords_def edge_voxels_nonempty)
qed

lemma diameter_value:
  assumes mc: "matrixCoordinates self = (c0, c1, c2)" and sp: "pixelSpacing self = (x, y, z)"
    and ne: "c0 \<noteq> []" and len: "length c1 = length c0" "length c2 = length c0"
  shows "getMaximum3DDiameterFeatureValue self
       = Inr (Max (insert 1 (candidate_distances (edge_min_coords (x, y, z) (c0, c1, c2))
                                                  (edge_max_coords (x, y, z) (c0, c1, c2)))))"
proof -
  have ne': "c1 \<noteq> []" "c2 \<noteq> []" using ne len by auto
  note em = edge_min_nonempty[OF ne len, of "(x, y, z)"]
  show ?thesis
    unfolding getMaximum3DDiameterFeatureValue_def mc sp
    using diameter_loop_Max[OF em]
    by (simp add: np_amin_Min np_amax_Max ne ne' then_do_def Let_def
        edge_min_coords_def edge_max_coords_def del: Max_insert)
qed


text \<open>
  C6. The running maximum starts at 1: for a non-empty region all of whose candidate
  distances (from a voxel on a maximum bound to a voxel on a minimum bound, in scaled
  coordinates) are below 1, \<open>getMaximum3DDiameterFeatureValue\<close> returns 1.
\<close>

theorem diameter_floor_is_one:
  assumes "matrixCoordinates self = (c0, c1, c2)" and "pixelSpacing self = (x, y, z)"
    and "c0 \<noteq> []" and "length c1 = length c0" and "length c2 = length c0"
    and "\<forall>r \<in> candidate_distances (edge_min_coords (x, y, z) (c0, c1, c2))
                                     (edge_max_coords (x, y, z) (c0, c1, c2)). r < 1"
  shows "getMaximum3DDiameterFeatureValue self = Inr 1"
proof -
  let ?D = "candidate_distances (edge_min_coords (x, y, z) (c0, c1, c2))
                                 (edge_max_coords (x, y, z) (c0, c1, c2))"
  have "Max (insert 1 ?D) = 1"
    by (rule Max_eqI) (use assms(6) finite_candidates in \<open>auto simp: less_imp_le\<close>)
  then show ?thesis
    using diameter_value[OF assms(1-5)] by simp
qed

theorem diameter_floor_is_one_witness:
  "matrixCoordinates (RadiomicsShape_init (1/2, 1/2, 1/2) 1 1 (Signed_or_float [[[1]]])) = ([1], [1], [1])
   \<and> pixelSpacing (RadiomicsShape_init (1/2, 1/2, 1/2) 1 1 (Signed_or_float [[[1]]])) = (1/2, 1/2, 1/2)
   \<and> candidate_distances (edge_min_coords (1/2, 1/2, 1/2) ([1], [1], [1]))
                           (edge_max_coords (1/2, 1/2, 1/2) ([1], [1], [1])) = {0}
   \<and> getMaximum3DDiameterFeatureValue (RadiomicsShape_init (1/2, 1/2, 1/2) 1 1 (Signed_or_float [[[1]]]))
       = Inr 1"
proof -
  let ?self = "RadiomicsShape_init (1/2, 1/2, 1/2) 1 1 (Signed_or_float [[[1]]])"
  have mc: "matrixCoordinates ?self = ([1], [1], [1])"
    by (simp add: init_fields np_where_def where3_def ConstantPadImageFilter_def
        pad_plane_def pad_row_def numeral_eq_Suc)
  have sp: "pixelSpacing ?self = (1/2, 1/2, 1/2)"
    by (simp add: init_fields)
  have D: "candidate_distances (edge_min_coords (1/2, 1/2, 1/2) ([1], [1], [1]))
                               (edge_max_coords (1/2, 1/2, 1/2) ([1], [1], [1])) = {0}"
    by (simp add: candidate_distances_def edge_min_coords_def edge_max_coords_def
        edge_voxels_def scale_zyx_def voxel_distance_def)
  have small: "\<forall>r \<in> candidate_distances (edge_min_coords (1/2, 1/2, 1/2) ([1], [1], [1]))
                     (edge_max_coords (1/2, 1/2, 1/2) ([1], [1], [1])). r < 1"
    unfolding D by simp
  from diameter_floor_is_one[OF mc sp _ _ _ small] mc sp D show ?thesis
    by simp
qed

lemma zip_where: "zip (map fst w) (zip (map (fst \<circ> snd) w) (map (snd \<circ> snd) w)) = w"
  by (induction w) auto

lemma cube3_coords:
  "matrixCoordinates (RadiomicsShape_init (1, 1, 1) 3 3 (Signed_or_float cube3)) =
    ([1, 1, 1, 1, 1, 1, 1, 1, 1, 2, 2, 2, 2, 2, 2, 2, 2, 2, 3, 3, 3, 3, 3, 3, 3, 3, 3],
     [1, 1, 1, 2, 2, 2, 3, 3, 3, 1, 1, 1, 2, 2, 2, 3, 3, 3, 1, 1, 1, 2, 2, 2, 3, 3, 3],
     [1, 2, 3, 1, 2, 3, 1, 2, 3, 1, 2, 3, 1, 2, 3, 1, 2, 3, 1, 2, 3, 1, 2, 3, 1, 2, 3])"
  by (simp add: init_fields np_where_def where3_cube3)

lemma Min_Max_coords:
  "Min (set [1, 1, 1, 1, 1, 1, 1, 1, 1, 2, 2, 2, 2, 2, 2, 2, 2, 2, 3, 3, 3, 3, 3, 3, 3, 3, 3::nat]) = 1"
  "Max (set [1, 1, 1, 1, 1, 1, 1, 1, 1, 2, 2, 2, 2, 2, 2, 2, 2, 2, 3, 3, 3, 3, 3, 3, 3, 3, 3::nat]) = 3"
  "Min (set [1, 1, 1, 2, 2, 2, 3, 3, 3, 1, 1, 1, 2, 2, 2, 3, 3, 3, 1, 1, 1, 2, 2, 2, 3, 3, 3::nat]) = 1"
  "Max (set [1, 1, 1, 2, 2, 2, 3, 3, 3, 1, 1, 1, 2, 2, 2, 3, 3, 3, 1, 1, 1, 2, 2, 2, 3, 3, 3::nat]) = 3"
  "Min (set [1, 2, 3, 1, 2, 3, 1, 2, 3, 1, 2, 3, 1, 2, 3, 1, 2, 3, 1, 2, 3, 1, 2, 3, 1, 2, 3::nat]) = 1"
  "Max (set [1, 2, 3, 1, 2, 3, 1, 2, 3, 1, 2, 3, 1, 2, 3, 1, 2, 3, 1, 2, 3, 1, 2, 3, 1, 2, 3::nat]) = 3"
  by simp_all


lemma cube3_edge_min:
  "edge_min_coords (1, 1, 1)
    ([1, 1, 1, 1, 1, 1, 1, 1, 1, 2, 2, 2, 2, 2, 2, 2, 2, 2, 3, 3, 3, 3, 3, 3, 3, 3, 3],
     [1, 1, 1, 2, 2, 2, 3, 3, 3, 1, 1, 1, 2, 2, 2, 3, 3, 3, 1, 1, 1, 2, 2, 2, 3, 3, 3],
     [1, 2, 3, 1, 2, 3, 1, 2, 3, 1, 2, 3, 1, 2, 3, 1, 2, 3, 1, 2, 3, 1, 2, 3, 1, 2, 3])
   = [(1, 1, 1), (1, 1, 2), (1, 1, 3), (1, 2, 1), (1, 2, 2), (1, 2, 3),
      (1, 3, 1), (1, 3, 2), (1, 3, 3), (1, 1, 1), (1, 1, 2), (1, 1, 3),
      (2, 1, 1), (2, 1, 2), (2, 1, 3), (3, 1, 1), (3, 1, 2), (3, 1, 3),
      (1, 1, 1), (1, 2, 1), (1, 3, 1), (2, 1, 1), (2, 2, 1), (2, 3, 1),
      (3, 1, 1), (3, 2, 1), (3, 3, 1)]"
  unfolding edge_min_coords_def prod.case Min_Max_coords
  by (simp add: edge_voxels_def scale_zyx_def)

lemma cube3_edge_max:
  "edge_max_coords (1, 1, 1)
    ([1, 1, 1, 1, 1, 1, 1, 1, 1, 2, 2, 2, 2, 2, 2, 2, 2, 2, 3, 3, 3, 3, 3, 3, 3, 3, 3],
     [1, 1, 1, 2, 2, 2, 3, 3, 3, 1, 1, 1, 2, 2, 2, 3, 3, 3, 1, 1, 1, 2, 2, 2, 3, 3, 3],
     [1, 2, 3, 1, 2, 3, 1, 2, 3, 1, 2, 3, 1, 2, 3, 1, 2, 3, 1, 2, 3, 1, 2, 3, 1, 2, 3])
   = [(3, 1, 1), (3, 1, 2), (3, 1, 3), (3, 2, 1), (3, 2, 2), (3, 2, 3),
      (3, 3, 1), (3, 3, 2), (3, 3, 3), (1, 3, 1), (1, 3, 2), (1, 3, 3),
      (2, 3, 1), (2, 3, 2), (2, 3, 3), (3, 3, 1), (3, 3, 2), (3, 3, 3),
      (1, 1, 3), (1, 2, 3), (1, 3, 3), (2, 1, 3), (2, 2, 3), (2, 3, 3),
      (3, 1, 3), (3, 2, 3), (3, 3, 3)]"
  unfolding edge_max_coords_def prod.case Min_Max_coords
  by (simp add: edge_voxels_def scale_zyx_def)

lemma sq_diff_le_4:
  fixes a b :: real
  assumes "1 \<le> a" "a \<le> 3" "1 \<le> b" "b \<le> 3"
  shows "(a - b)\<^sup>2 \<le> 4"
proof -
  have "\<bar>a - b\<bar> \<le> 2" using assms by simp
  then have "(a - b)\<^sup>2 \<le> 2\<^sup>2" by (metis abs_le_square_iff abs_numeral)
  then show ?thesis by simp
qed

lemma in_box_distance:
  assumes "in_box v1" "in_box v2"
  shows "voxel_distance v2 v1 \<le> sqrt 12"
proof -
  obtain c1 b1 a1 where v1: "v1 = (c1, b1, a1)" by (cases v1) auto
  obtain c2 b2 a2 where v2: "v2 = (c2, b2, a2)" by (cases v2) auto
  have "(c2 - c1)\<^sup>2 \<le> 4" "(b2 - b1)\<^sup>2 \<le> 4" "(a2 - a1)\<^sup>2 \<le> 4"
    using assms unfolding v1 v2 in_box_def by (simp_all add: sq_diff_le_4)
  then have "(c2 - c1)\<^sup>2 + (b2 - b1)\<^sup>2 + (a2 - a1)\<^sup>2 \<le> 12" by simp
  then show ?thesis
    unfolding v1 v2 voxel_distance_def by (simp only: prod.case real_sqrt_le_iff)
qed

text \<open>
  C5. For the 3x3x3 all-true mask with spacing (1,1,1),
  \<open>getMaximum3DDiameterFeatureValue\<close> returns \<open>\<surd>12\<close>, the distance between opposite
  corners of the cube, whose index extent is 2 along each axis.
\<close>

theorem cube3_maximum_diameter:
  "getMaximum3DDiameterFeatureValue (RadiomicsShape_init (1, 1, 1) 3 3 (Signed_or_float cube3)) = Inr (sqrt 12)"
proof -
  let ?self = "RadiomicsShape_init (1, 1, 1) 3 3 (Signed_or_float cube3)"
  let ?c0 = "[1, 1, 1, 1, 1, 1, 1, 1, 1, 2, 2, 2, 2, 2, 2, 2, 2, 2, 3, 3, 3, 3, 3, 3, 3, 3, 3::nat]"
  let ?c1 = "[1, 1, 1, 2, 2, 2, 3, 3, 3, 1, 1, 1, 2, 2, 2, 3, 3, 3, 1, 1, 1, 2, 2, 2, 3, 3, 3::nat]"
  let ?c2 = "[1, 2, 3, 1, 2, 3, 1, 2, 3, 1, 2, 3, 1, 2, 3, 1, 2, 3, 1, 2, 3, 1, 2, 3, 1, 2, 3::nat]"
  let ?emin = "edge_min_coords (1, 1, 1) (?c0, ?c1, ?c2)"
  let ?emax = "edge_max_coords (1, 1, 1) (?c0, ?c1, ?c2)"
  let ?D = "candidate_distances ?emin ?emax"
  have sp: "pixelSpacing ?self = (1, 1, 1)" by (simp add: init_fields)
  have val: "getMaximum3DDiameterFeatureValue ?self = Inr (Max (insert 1 ?D))"
    by (rule diameter_value[OF cube3_coords sp]) simp_all
  have box_min: "\<forall>v\<in>set ?emin. in_box v"
    unfolding cube3_edge_min by (simp add: in_box_def)
  have box_max: "\<forall>v\<in>set ?emax. in_box v"
    unfolding cube3_edge_max by (simp add: in_box_def)
  have le: "y \<le> sqrt 12" if "y \<in> ?D" for y
  proof -
    from that obtain v1 v2 where "v1 \<in> set ?emax" "v2 \<in> set ?emin"
      and y: "y = voxel_distance v2 v1"
      unfolding candidate_distances_iff by blast
    then have "in_box v1" "in_box v2" using box_min box_max by blast+
    then show ?thesis unfolding y by (rule in_box_distance)
  qed
  have corner_max: "(3, 3, 3) \<in> set ?emax" unfolding cube3_edge_max by simp
  have corner_min: "(1, 1, 1) \<in> set ?emin" unfolding cube3_edge_min by simp
  have d: "voxel_distance (1, 1, 1) (3, 3, 3) = sqrt 12"
    by (simp add: voxel_distance_def)
  have mem: "sqrt 12 \<in> ?D"
    unfolding candidate_distances_iff using corner_max corner_min d[symmetric] by blast
  have one: "(1::real) \<le> sqrt 12" by simp
  have "Max (insert 1 ?D) = sqrt 12"
  proof (rule Max_eqI)
    show "finite (insert 1 ?D)" by (simp only: finite_insert finite_candidates)
    show "sqrt 12 \<in> insert 1 ?D" using mem by (rule insertI2)
    fix y assume "y \<in> insert 1 ?D"
    then have "y = 1 \<or> y \<in> ?D" by (simp only: insert_iff)
    then show "y \<le> sqrt 12" using one le by blast
  qed
  then show ?thesis by (simp only: val)
qed

section \<open>An unsigned mask array\<close>

lemma length_filter_sum_nat: "length (filter P xs) = (\<Sum>x\<leftarrow>xs. if P x then 1 else 0)"
  by (induction xs) simp_all

lemma sum_list_lin:
  fixes f g :: "'a \<Rightarrow> nat"
  shows "(\<Sum>x\<leftarrow>xs. f x + c * g x) = (\<Sum>x\<leftarrow>xs. f x) + c * (\<Sum>x\<leftarrow>xs. g x)"
  by (induction xs) (simp_all add: algebra_simps)

lemma binary_word_diff:
  fixes u v :: "'a::len word"
  assumes "u = 0 \<or> u = 1" "v = 0 \<or> v = 1"
  shows "unat (u - v) = (if u = 1 \<and> v = 0 then 1 else 0)
                        + (2 ^ LENGTH('a) - 1) * (if u = 0 \<and> v = 1 then 1 else 0)"
  using assms by (auto simp: unsigned_minus_1_eq_mask mask_eq_exp_minus_1)

lemma surf_x_uint_index:
  "has_shape a D H W \<Longrightarrow>
   surf_x_uint a = (\<Sum>k\<leftarrow>[0..<D]. \<Sum>j\<leftarrow>[0..<H]. \<Sum>i\<leftarrow>[0..<W - 1].
                 unat (a ! k ! j ! Suc i - a ! k ! j ! i)) mod 2 ^ max LENGTH('a) 64"
  for a :: "'a::len word array3"
  by (simp add: surf_x_uint_def np_subtract_def np_sum_uint_def diff_x_index comp_def)

lemma surf_x_uint_count:
  fixes a :: "'a::len word array3"
  assumes sh: "has_shape a D H W" and bin: "is_binary a"
  shows "surf_x_uint a =
     (rising_pairs_x a D H W + (2 ^ LENGTH('a) - 1) * falling_pairs_x a D H W)
       mod 2 ^ max LENGTH('a) 64"
proof -
  note v = is_binary_shape_nth[OF sh bin]
  let ?c = "2 ^ LENGTH('a) - 1 :: nat"
  have "(\<Sum>k\<leftarrow>[0..<D]. \<Sum>j\<leftarrow>[0..<H]. \<Sum>i\<leftarrow>[0..<W - 1].
                 unat (a ! k ! j ! Suc i - a ! k ! j ! i))
      = (\<Sum>k\<leftarrow>[0..<D]. \<Sum>j\<leftarrow>[0..<H]. \<Sum>i\<leftarrow>[0..<W - 1].
           (if a ! k ! j ! Suc i = 1 \<and> a ! k ! j ! i = 0 then 1 else 0)
           + ?c * (if a ! k ! j ! Suc i = 0 \<and> a ! k ! j ! i = 1 then 1 else 0))"
    by (intro sum_list_cong_set binary_word_diff v) auto
  also have "\<dots> = rising_pairs_x a D H W + ?c * falling_pairs_x a D H W"
    by (simp add: rising_pairs_x_def falling_pairs_x_def length_filter_sum_nat
        sum_list_product sum_list_lin)
  finally show ?thesis
    by (simp only: surf_x_uint_index[OF sh])
qed


lemma surf_y_uint_index:
  "has_shape a D H W \<Longrightarrow>
   surf_y_uint a = (\<Sum>k\<leftarrow>[0..<D]. \<Sum>j\<leftarrow>[0..<H - 1]. \<Sum>i\<leftarrow>[0..<W].
                 unat (a ! k ! Suc j ! i - a ! k ! j ! i)) mod 2 ^ max LENGTH('a) 64"
  for a :: "'a::len word array3"
  by (simp add: surf_y_uint_def np_subtract_def np_sum_uint_def diff_y_index comp_def)

lemma surf_z_uint_index:
  "has_shape a D H W \<Longrightarrow>
   surf_z_uint a = (\<Sum>k\<leftarrow>[0..<D - 1]. \<Sum>j\<leftarrow>[0..<H]. \<Sum>i\<leftarrow>[0..<W].
                 unat (a ! Suc k ! j ! i - a ! k ! j ! i)) mod 2 ^ max LENGTH('a) 64"
  for a :: "'a::len word array3"
  by (simp add: surf_z_uint_def np_subtract_def np_sum_uint_def diff_z_index comp_def)

lemma surf_y_uint_count:
  fixes a :: "'a::len word array3"
  assumes sh: "has_shape a D H W" and bin: "is_binary a"
  shows "surf_y_uint a =
     (rising_pairs_y a D H W + (2 ^ LENGTH('a) - 1) * falling_pairs_y a D H W)
       mod 2 ^ max LENGTH('a) 64"
proof -
  note v = is_binary_shape_nth[OF sh bin]
  let ?c = "2 ^ LENGTH('a) - 1 :: nat"
  have "(\<Sum>k\<leftarrow>[0..<D]. \<Sum>j\<leftarrow>[0..<H - 1]. \<Sum>i\<leftarrow>[0..<W].
                 unat (a ! k ! Suc j ! i - a ! k ! j ! i))
      = (\<Sum>k\<leftarrow>[0..<D]. \<Sum>j\<leftarrow>[0..<H - 1]. \<Sum>i\<leftarrow>[0..<W].
           (if a ! k ! Suc j ! i = 1 \<and> a ! k ! j ! i = 0 then 1 else 0)
           + ?c * (if a ! k ! Suc j ! i = 0 \<and> a ! k ! j ! i = 1 then 1 else 0))"
    by (intro sum_list_cong_set binary_word_diff v) auto
  also have "\<dots> = rising_pairs_y a D H W + ?c * falling_pairs_y a D H W"
    by (simp add: rising_pairs_y_def falling_pairs_y_def length_filter_sum_nat
        sum_list_product sum_list_lin)
  finally show ?thesis
    by (simp only: surf_y_uint_index[OF sh])
qed

lemma surf_z_uint_count:
  fixes a :: "'a::len word array3"
  assumes sh: "has_shape a D H W" and bin: "is_binary a"
  shows "surf_z_uint a =
     (rising_pairs_z a D H W + (2 ^ LENGTH('a) - 1) * falling_pairs_z a D H W)
       mod 2 ^ max LENGTH('a) 64"
proof -
  note v = is_binary_shape_nth[OF sh bin]
  let ?c = "2 ^ LENGTH('a) - 1 :: nat"
  have "(\<Sum>k\<leftarrow>[0..<D - 1]. \<Sum>j\<leftarrow>[0..<H]. \<Sum>i\<leftarrow>[0..<W].
                 unat (a ! Suc k ! j ! i - a ! k ! j ! i))
      = (\<Sum>k\<leftarrow>[0..<D - 1]. \<Sum>j\<leftarrow>[0..<H]. \<Sum>i\<leftarrow>[0..<W].
           (if a ! Suc k ! j ! i = 1 \<and> a ! k ! j ! i = 0 then 1 else 0)
           + ?c * (if a ! Suc k ! j ! i = 0 \<and> a ! k ! j ! i = 1 then 1 else 0))"
    by (intro sum_list_cong_set binary_word_diff v) auto
  also have "\<dots> = rising_pairs_z a D H W + ?c * falling_pairs_z a D H W"
    by (simp add: rising_pairs_z_def falling_pairs_z_def length_filter_sum_nat
        sum_list_product sum_list_lin)
  finally show ?thesis
    by (simp only: surf_z_uint_index[OF sh])
qed

lemma binary_word_differ:
  fixes u v :: "'a::len word"
  assumes "u = 0 \<or> u = 1" "v = 0 \<or> v = 1"
  shows "(if u \<noteq> v then 1 else 0)
       = (if u = 1 \<and> v = 0 then 1 else 0) + (if u = 0 \<and> v = 1 then 1 else (0::nat))"
  using assms by auto

lemma differing_split_x:
  fixes a :: "'a::len word array3"
  assumes sh: "has_shape a D H W" and bin: "is_binary a"
  shows "differing_pairs_x a D H W = rising_pairs_x a D H W + falling_pairs_x a D H W"
proof -
  note v = is_binary_shape_nth[OF sh bin]
  have "differing_pairs_x a D H W
      = (\<Sum>k\<leftarrow>[0..<D]. \<Sum>j\<leftarrow>[0..<H]. \<Sum>i\<leftarrow>[0..<W - 1].
           if a ! k ! j ! Suc i \<noteq> a ! k ! j ! i then 1 else 0)"
    by (simp add: differing_pairs_x_def length_filter_sum_nat sum_list_product)
  also have "\<dots> = (\<Sum>k\<leftarrow>[0..<D]. \<Sum>j\<leftarrow>[0..<H]. \<Sum>i\<leftarrow>[0..<W - 1].
           (if a ! k ! j ! Suc i = 1 \<and> a ! k ! j ! i = 0 then 1 else 0)
           + (if a ! k ! j ! Suc i = 0 \<and> a ! k ! j ! i = 1 then 1 else 0))"
    by (intro sum_list_cong_set binary_word_differ v) auto
  also have "\<dots> = rising_pairs_x a D H W + falling_pairs_x a D H W"
    by (simp add: rising_pairs_x_def falling_pairs_x_def length_filter_sum_nat
        sum_list_product sum_list_addf)
  finally show ?thesis .
qed

lemma differing_split_y:
  fixes a :: "'a::len word array3"
  assumes sh: "has_shape a D H W" and bin: "is_binary a"
  shows "differing_pairs_y a D H W = rising_pairs_y a D H W + falling_pairs_y a D H W"
proof -
  note v = is_binary_shape_nth[OF sh bin]
  have "differing_pairs_y a D H W
      = (\<Sum>k\<leftarrow>[0..<D]. \<Sum>j\<leftarrow>[0..<H - 1]. \<Sum>i\<leftarrow>[0..<W].
           if a ! k ! Suc j ! i \<noteq> a ! k ! j ! i then 1 else 0)"
    by (simp add: differing_pairs_y_def length_filter_sum_nat sum_list_product)
  also have "\<dots> = (\<Sum>k\<leftarrow>[0..<D]. \<Sum>j\<leftarrow>[0..<H - 1]. \<Sum>i\<leftarrow>[0..<W].
           (if a ! k ! Suc j ! i = 1 \<and> a ! k ! j ! i = 0 then 1 else 0)
           + (if a ! k ! Suc j ! i = 0 \<and> a ! k ! j ! i = 1 then 1 else 0))"
    by (intro sum_list_cong_set binary_word_differ v) auto
  also have "\<dots> = rising_pairs_y a D H W + falling_pairs_y a D H W"
    by (simp add: rising_pairs_y_def falling_pairs_y_def length_filter_sum_nat
        sum_list_product sum_list_addf)
  finally show ?thesis .
qed

lemma differing_split_z:
  fixes a :: "'a::len word array3"
  assumes sh: "has_shape a D H W" and bin: "is_binary a"
  shows "differing_pairs_z a D H W = rising_pairs_z a D H W + falling_pairs_z a D H W"
proof -
  note v = is_binary_shape_nth[OF sh bin]
  have "differing_pairs_z a D H W
      = (\<Sum>k\<leftarrow>[0..<D - 1]. \<Sum>j\<leftarrow>[0..<H]. \<Sum>i\<leftarrow>[0..<W].
           if a ! Suc k ! j ! i \<noteq> a ! k ! j ! i then 1 else 0)"
    by (simp add: differing_pairs_z_def length_filter_sum_nat sum_list_product)
  also have "\<dots> = (\<Sum>k\<leftarrow>[0..<D - 1]. \<Sum>j\<leftarrow>[0..<H]. \<Sum>i\<leftarrow>[0..<W].
           (if a ! Suc k ! j ! i = 1 \<and> a ! k ! j ! i = 0 then 1 else 0)
           + (if a ! Suc k ! j ! i = 0 \<and> a ! k ! j ! i = 1 then 1 else 0))"
    by (intro sum_list_cong_set binary_word_differ v) auto
  also have "\<dots> = rising_pairs_z a D H W + falling_pairs_z a D H W"
    by (simp add: rising_pairs_z_def falling_pairs_z_def length_filter_sum_nat
        sum_list_product sum_list_addf)
  finally show ?thesis .
qed


text \<open>
  C10 (amended). On a binary array of \<open>w\<close>-bit unsigned integers the subtraction wraps
  only where the mask falls from 1 to 0 in the direction of increasing index: such a
  pair contributes \<open>2\<^sup>w - 1\<close> to the sum of its axis, a pair where the mask rises from 0
  to 1 contributes 1, and every differing pair is one or the other. The sum is kept
  modulo the width of the accumulator of \<^verbatim>\<open>numpy.sum\<close>.
\<close>

theorem unsigned_mask_face_sums:
  fixes a :: "'a::len word array3"
  assumes "has_shape a D H W" and "is_binary a"
  shows "surf_x_uint a =
           (rising_pairs_x a D H W + (2 ^ LENGTH('a) - 1) * falling_pairs_x a D H W)
             mod 2 ^ max LENGTH('a) 64
       \<and> surf_y_uint a =
           (rising_pairs_y a D H W + (2 ^ LENGTH('a) - 1) * falling_pairs_y a D H W)
             mod 2 ^ max LENGTH('a) 64
       \<and> surf_z_uint a =
           (rising_pairs_z a D H W + (2 ^ LENGTH('a) - 1) * falling_pairs_z a D H W)
             mod 2 ^ max LENGTH('a) 64
       \<and> differing_pairs_x a D H W = rising_pairs_x a D H W + falling_pairs_x a D H W
       \<and> differing_pairs_y a D H W = rising_pairs_y a D H W + falling_pairs_y a D H W
       \<and> differing_pairs_z a D H W = rising_pairs_z a D H W + falling_pairs_z a D H W"
  using surf_x_uint_count[OF assms] surf_y_uint_count[OF assms] surf_z_uint_count[OF assms]
    differing_split_x[OF assms] differing_split_y[OF assms] differing_split_z[OF assms]
  by (intro conjI)

lemma voxel8_shape: "has_shape voxel8 3 3 3"
  by (simp add: voxel8_def has_shape_def)

lemma voxel8_binary: "is_binary voxel8"
  by (simp add: voxel8_def is_binary_def)

lemma voxel8_surf:
  "surf_x_uint voxel8 = 256" "surf_y_uint voxel8 = 256" "surf_z_uint voxel8 = 256"
  by (simp_all add: voxel8_def surf_x_uint_def surf_y_uint_def surf_z_uint_def
      np_sum_uint_def np_subtract_def slice_x_from1_def slice_x_to_last_def
      slice_y_from1_def slice_y_to_last_def slice_z_from1_def slice_z_to_last_def
      unsigned_minus_1_eq_mask mask_eq_exp_minus_1)

lemma voxel8_differing:
  "differing_pairs_x voxel8 3 3 3 = 2" "differing_pairs_y voxel8 3 3 3 = 2"
  "differing_pairs_z voxel8 3 3 3 = 2"
  by (simp_all add: voxel8_def differing_pairs_x_def differing_pairs_y_def
      differing_pairs_z_def upt_conv_Cons)

theorem unsigned_mask_face_sums_witness:
  "has_shape voxel8 3 3 3 \<and> is_binary voxel8
   \<and> surf_x_uint voxel8 =
        (rising_pairs_x voxel8 3 3 3 + (2 ^ 8 - 1) * falling_pairs_x voxel8 3 3 3) mod 2 ^ 64
   \<and> surf_x_uint voxel8 = 256
   \<and> differing_pairs_x voxel8 3 3 3
        = rising_pairs_x voxel8 3 3 3 + falling_pairs_x voxel8 3 3 3"
proof -
  note t = unsigned_mask_face_sums[OF voxel8_shape voxel8_binary]
  from t have "surf_x_uint voxel8 =
        (rising_pairs_x voxel8 3 3 3 + (2 ^ 8 - 1) * falling_pairs_x voxel8 3 3 3) mod 2 ^ 64"
    by simp
  moreover from t have "differing_pairs_x voxel8 3 3 3
        = rising_pairs_x voxel8 3 3 3 + falling_pairs_x voxel8 3 3 3"
    by simp
  ultimately show ?thesis
    using voxel8_shape voxel8_binary voxel8_surf(1) by (intro conjI)
qed

text \<open>
  C10 as stated fails: for one voxel of an 8-bit mask (padded to 3x3x3) there are two
  exposed faces per axis and each axis sums to \<open>1 + 255 = 256\<close>, not \<open>2 * 255\<close>; with
  spacing (1,1,1) the surface area comes out as 768, not \<open>255 * 6 = 1530\<close>.
\<close>

theorem unsigned_faces_not_all_inflated:
  "has_shape voxel8 3 3 3 \<and> is_binary voxel8
   \<and> differing_pairs_x voxel8 3 3 3 = 2
   \<and> surf_x_uint voxel8 = 256
   \<and> surf_x_uint voxel8 \<noteq> (2 ^ 8 - 1) * differing_pairs_x voxel8 3 3 3
   \<and> getSurfaceAreaFeatureValue_uint (1, 1, 1) voxel8 = 768
   \<and> getSurfaceAreaFeatureValue_uint (1, 1, 1) voxel8
        \<noteq> (2 ^ 8 - 1) * (real (differing_pairs_x voxel8 3 3 3) * (1 * 1)
                          + real (differing_pairs_y voxel8 3 3 3) * (1 * 1)
                          + real (differing_pairs_z voxel8 3 3 3) * (1 * 1))"
  by (simp add: voxel8_shape voxel8_binary voxel8_surf voxel8_differing
      getSurfaceAreaFeatureValue_uint_def)

section \<open>Counting voxels by slices and projections\<close>







section \<open>Every occupied line has two exposed faces\<close>
















section \<open>Compactness2 is at most 1\<close>










section \<open>The object built from an unsigned mask\<close>

lemma getSurfaceArea_unsigned:
  "maskArray self = UInt8 a8 \<Longrightarrow>
     getSurfaceAreaFeatureValue self = getSurfaceAreaFeatureValue_uint (pixelSpacing self) a8"
  "maskArray self = UInt16 a16 \<Longrightarrow>
     getSurfaceAreaFeatureValue self = getSurfaceAreaFeatureValue_uint (pixelSpacing self) a16"
  "maskArray self = UInt32 a32 \<Longrightarrow>
     getSurfaceAreaFeatureValue self = getSurfaceAreaFeatureValue_uint (pixelSpacing self) a32"
  "maskArray self = UInt64 a64 \<Longrightarrow>
     getSurfaceAreaFeatureValue self = getSurfaceAreaFeatureValue_uint (pixelSpacing self) a64"
  by (simp_all add: getSurfaceAreaFeatureValue_def getSurfaceAreaFeatureValue_uint_def
      mask_surf_x_def mask_surf_y_def mask_surf_z_def Let_def split: prod.splits)

lemma pad_uint8_voxel: "ConstantPadImageFilter 1 1 [[[1::8 word]]] = voxel8"
  by (simp add: ConstantPadImageFilter_def pad_plane_def pad_row_def voxel8_def numeral_eq_Suc)






text \<open>
  C1. The claim gives the surface area as the weighted count of differing adjacent
  pairs for every binary mask. On a mask with an unsigned pixel type the code returns
  something else: for one voxel of an 8-bit unsigned mask with spacing (1,1,1) the
  padded array has two differing pairs along each axis, so the count is 6, and
  \<open>getSurfaceAreaFeatureValue\<close> returns 768.
\<close>

theorem surface_area_uint8_one_voxel:
  "maskArray (RadiomicsShape_init (1, 1, 1) 1 1 (UInt8 [[[1]]])) = UInt8 voxel8
   \<and> has_shape voxel8 3 3 3 \<and> is_binary voxel8
   \<and> real (differing_pairs_x voxel8 3 3 3) * (1 * 1)
       + real (differing_pairs_y voxel8 3 3 3) * (1 * 1)
       + real (differing_pairs_z voxel8 3 3 3) * (1 * 1) = 6
   \<and> getSurfaceAreaFeatureValue (RadiomicsShape_init (1, 1, 1) 1 1 (UInt8 [[[1]]])) = 768"
proof -
  let ?self = "RadiomicsShape_init (1, 1, 1) 1 1 (UInt8 [[[1]]])"
  have m: "maskArray ?self = UInt8 voxel8"
    by (simp only: init_mask_array pad_uint8_voxel)
  have sp: "pixelSpacing ?self = (1, 1, 1)"
    by (simp add: init_fields)
  have "getSurfaceAreaFeatureValue ?self = getSurfaceAreaFeatureValue_uint (1, 1, 1) voxel8"
    using getSurfaceArea_unsigned(1)[OF m] by (simp only: sp)
  also have "\<dots> = 768"
    by (simp add: getSurfaceAreaFeatureValue_uint_def voxel8_surf)
  finally have a: "getSurfaceAreaFeatureValue ?self = 768" .
  have c: "real (differing_pairs_x voxel8 3 3 3) * (1 * 1)
       + real (differing_pairs_y voxel8 3 3 3) * (1 * 1)
       + real (differing_pairs_z voxel8 3 3 3) * (1 * 1) = 6"
    by (simp add: voxel8_differing)
  from m voxel8_shape voxel8_binary c a show ?thesis by (intro conjI)
qed







end
